theory Spec2Isabelle
  imports Complex_Main
begin

section \<open>JavaScript values\<close>

text \<open>
  The query tree carries arbitrary JavaScript values in \<open>rule.value\<close>, and the PostgREST
  codec reads and writes plain JavaScript objects. A value is modelled structurally.
  An object is the list of its own enumerable properties in enumeration order (the order
  of \<open>Object.entries\<close>); strings are lists of characters; numbers are identified with
  their numeric value (\<open>NaN\<close>, the infinities and the sign of zero are outside the model).
\<close>

datatype jsval =
    JUndefined
  | JNull
  | JBool bool
  | JNum rat
  | JStr string
  | JArr "jsval list"
  | JObj "(string \<times> jsval) list"

text \<open>A \<open>TypeError\<close> is what JavaScript throws on a property read from \<open>null\<close> or
  \<open>undefined\<close>, on a call of something that is not a function, and on destructuring
  a value that is not iterable.\<close>

datatype error = TypeError

text \<open>\<open>isPojo\<close> (imported from \<open>../misc\<close>): the test for a plain object.\<close>

definition isPojo :: "jsval \<Rightarrow> bool" where
  "isPojo v = (case v of JObj kvs \<Rightarrow> True | _ \<Rightarrow> False)"

definition isArray :: "jsval \<Rightarrow> bool" where
  "isArray v = (case v of JArr xs \<Rightarrow> True | _ \<Rightarrow> False)"

definition isString :: "jsval \<Rightarrow> bool" where
  "isString v = (case v of JStr s \<Rightarrow> True | _ \<Rightarrow> False)"

definition isNumber :: "jsval \<Rightarrow> bool" where
  "isNumber v = (case v of JNum n \<Rightarrow> True | _ \<Rightarrow> False)"

definition isBoolean :: "jsval \<Rightarrow> bool" where
  "isBoolean v = (case v of JBool b \<Rightarrow> True | _ \<Rightarrow> False)"

text \<open>\<open>isPojo(logic) && k in logic\<close>, the shape of every type guard of the parser.\<close>

definition hasKey :: "string \<Rightarrow> jsval \<Rightarrow> bool" where
  "hasKey k v = (case v of JObj kvs \<Rightarrow> map_of kvs k \<noteq> None | _ \<Rightarrow> False)"

text \<open>\<open>obj[k]\<close> on a plain object (\<open>undefined\<close> for a missing key).\<close>

definition propOf :: "jsval \<Rightarrow> string \<Rightarrow> jsval" where
  "propOf v k = (case v of JObj kvs \<Rightarrow> (case map_of kvs k of Some x \<Rightarrow> x | None \<Rightarrow> JUndefined)
                | _ \<Rightarrow> JUndefined)"

fun nthOrUndefined :: "jsval list \<Rightarrow> nat \<Rightarrow> jsval" where
  "nthOrUndefined [] i = JUndefined"
| "nthOrUndefined (x # xs) 0 = x"
| "nthOrUndefined (x # xs) (Suc i) = nthOrUndefined xs i"

fun charOrUndefined :: "string \<Rightarrow> nat \<Rightarrow> jsval" where
  "charOrUndefined [] i = JUndefined"
| "charOrUndefined (c # cs) 0 = JStr [c]"
| "charOrUndefined (c # cs) (Suc i) = charOrUndefined cs i"

text \<open>\<open>v[0]\<close> and \<open>v[1]\<close> on any value: a \<open>TypeError\<close> on \<open>null\<close> and
  \<open>undefined\<close>, an element of an array, a character of a string, the property
  \<open>"0"\<close> or \<open>"1"\<close> of an object, \<open>undefined\<close> otherwise.\<close>

definition indexName :: "nat \<Rightarrow> string" where
  "indexName i = (if i = 0 then ''0'' else if i = 1 then ''1'' else ''2'')"

definition jsIndex :: "jsval \<Rightarrow> nat \<Rightarrow> error + jsval" where
  "jsIndex v i = (case v of
       JUndefined \<Rightarrow> Inl TypeError
     | JNull \<Rightarrow> Inl TypeError
     | JArr xs \<Rightarrow> Inr (nthOrUndefined xs i)
     | JStr s \<Rightarrow> Inr (charOrUndefined s i)
     | JObj kvs \<Rightarrow> Inr (propOf (JObj kvs) (indexName i))
     | _ \<Rightarrow> Inr JUndefined)"

text \<open>\<open>v.length === n\<close> on any value.\<close>

definition lengthIs :: "jsval \<Rightarrow> nat \<Rightarrow> error + bool" where
  "lengthIs v n = (case v of
       JUndefined \<Rightarrow> Inl TypeError
     | JNull \<Rightarrow> Inl TypeError
     | JArr xs \<Rightarrow> Inr (length xs = n)
     | JStr s \<Rightarrow> Inr (length s = n)
     | JObj kvs \<Rightarrow> Inr (propOf (JObj kvs) ''length'' = JNum (of_nat n))
     | _ \<Rightarrow> Inr False)"

text \<open>\<open>Boolean(v)\<close>, the predicate of \<open>.filter(Boolean)\<close> and of every \<open>v ? a : b\<close>.\<close>

definition truthy :: "jsval \<Rightarrow> bool" where
  "truthy v = (case v of
       JUndefined \<Rightarrow> False
     | JNull \<Rightarrow> False
     | JBool b \<Rightarrow> b
     | JNum n \<Rightarrow> n \<noteq> 0
     | JStr s \<Rightarrow> s \<noteq> []
     | _ \<Rightarrow> True)"

text \<open>\<open>Array.prototype.join\<close> on strings.\<close>

fun joinStrings :: "string \<Rightarrow> string list \<Rightarrow> string" where
  "joinStrings sep [] = []"
| "joinStrings sep [x] = x"
| "joinStrings sep (x # y # ys) = x @ sep @ joinStrings sep (y # ys)"

text \<open>The string conversion of a template literal \<open>`${v}`\<close>. The digits of a number are
  the host's (\<open>Number.prototype.toString\<close>), taken as the parameter \<open>num\<close>. An array
  prints its elements joined by commas, \<open>null\<close> and \<open>undefined\<close> as the empty string.\<close>

fun toStr :: "(rat \<Rightarrow> string) \<Rightarrow> jsval \<Rightarrow> string"
  and toStrElems :: "(rat \<Rightarrow> string) \<Rightarrow> jsval list \<Rightarrow> string list" where
  "toStr num JUndefined = ''undefined''"
| "toStr num JNull = ''null''"
| "toStr num (JBool b) = (if b then ''true'' else ''false'')"
| "toStr num (JNum n) = num n"
| "toStr num (JStr s) = s"
| "toStr num (JArr xs) = joinStrings '','' (toStrElems num xs)"
| "toStr num (JObj kvs) = ''[object Object]''"
| "toStrElems num [] = []"
| "toStrElems num (x # xs) =
     (if x = JUndefined \<or> x = JNull then [] else toStr num x) # toStrElems num xs"

definition lower_char :: "char \<Rightarrow> char" where
  "lower_char c = (case map_of (zip ''ABCDEFGHIJKLMNOPQRSTUVWXYZ'' ''abcdefghijklmnopqrstuvwxyz'') c
                   of Some d \<Rightarrow> d | None \<Rightarrow> c)"

definition lowerCase :: "string \<Rightarrow> string" where
  "lowerCase s = map lower_char s"

text \<open>The comparison \<open>a < b\<close> of two values: numbers by value, two strings by their
  characters, anything else after the host's conversion to a number (\<open>toNumber\<close>, with
  \<open>None\<close> for \<open>NaN\<close>, which compares false).\<close>

fun stringLess :: "string \<Rightarrow> string \<Rightarrow> bool" where
  "stringLess [] [] = False"
| "stringLess [] (y # ys) = True"
| "stringLess (x # xs) [] = False"
| "stringLess (x # xs) (y # ys) =
     ((of_char x :: nat) < of_char y \<or> (x = y \<and> stringLess xs ys))"

definition jsLess :: "(jsval \<Rightarrow> rat option) \<Rightarrow> jsval \<Rightarrow> jsval \<Rightarrow> bool" where
  "jsLess toNum a b = (case (a, b) of
       (JNum x, JNum y) \<Rightarrow> x < y
     | (JStr x, JStr y) \<Rightarrow> stringLess x y
     | _ \<Rightarrow> (case (toNum a, toNum b) of (Some x, Some y) \<Rightarrow> x < y | _ \<Rightarrow> False))"

section \<open>The canonical query tree\<close>

text \<open>
  A rule (\<open>RuleType\<close>) and the two variants of a group: \<open>RuleGroupType\<close> with one
  combinator for the group, and \<open>RuleGroupTypeIC\<close> with combinator strings between the
  elements of \<open>rules\<close>. Optional properties are options. \<open>rule_not\<close> is the property
  \<open>not\<close> that the parser's spread \<open>{ ...rule, not: true }\<close> can put on a rule object.
\<close>

record RuleType =
  rid :: "string option"
  field :: string
  operator :: string
  val :: jsval
  valueSource :: "string option"
  rule_not :: "bool option"

datatype RuleGroupType =
    RuleGroup (gid: "string option") (combinator: string) (gnot: "bool option")
      (rules: "RuleOrGroup list")
and RuleOrGroup =
    RuleItem RuleType
  | GroupItem RuleGroupType

datatype RuleGroupTypeIC =
    RuleGroupIC (icid: "string option") (icnot: "bool option") (icrules: "RuleOrGroupIC list")
and RuleOrGroupIC =
    RuleIC RuleType
  | GroupIC RuleGroupTypeIC
  | CombinatorIC string

datatype RuleGroupTypeAny = Standard RuleGroupType | IndependentCombinators RuleGroupTypeIC

text \<open>\<open>isRuleGroup\<close> (imported from \<open>../isRuleGroup\<close>): a plain object with an array
  \<open>rules\<close>.\<close>

definition isRuleGroup :: "RuleOrGroup \<Rightarrow> bool" where
  "isRuleGroup x = (case x of GroupItem g \<Rightarrow> True | RuleItem r \<Rightarrow> False)"


section \<open>Helpers of the repository that the sources import\<close>

text \<open>
  The codec calls utilities whose files are not part of the sources at hand
  (\<open>../arrayUtils\<close>, \<open>../parseNumber\<close>, \<open>./utils\<close>) and host functions. They are
  parameters of the model, collected in one record:
  \<^item> \<open>toArray\<close>, \<open>joinWith\<close>: splitting a value into a list and joining strings;
  \<^item> \<open>isValidValue\<close>, \<open>shouldRenderAsNumber\<close>, \<open>parseNumber\<close>: the numeric coercion;
  \<^item> \<open>numberToString\<close>, \<open>toNumber\<close>, \<open>JSON_parse\<close>: the host's conversions, with
    \<open>None\<close> for \<open>NaN\<close> and for the \<open>SyntaxError\<close> of \<open>JSON.parse\<close>;
  \<^item> \<open>convertToIC\<close>: the conversion to independent combinators.
\<close>

record Utils =
  toArray :: "jsval \<Rightarrow> jsval list"
  joinWith :: "string list \<Rightarrow> string \<Rightarrow> string"
  isValidValue :: "jsval \<Rightarrow> bool"
  shouldRenderAsNumber :: "jsval \<Rightarrow> bool option \<Rightarrow> bool"
  parseNumber :: "jsval \<Rightarrow> bool option \<Rightarrow> jsval"
  numberToString :: "rat \<Rightarrow> string"
  toNumber :: "jsval \<Rightarrow> rat option"
  JSON_parse :: "string \<Rightarrow> jsval option"
  convertToIC :: "RuleOrGroup \<Rightarrow> RuleGroupTypeIC"

section \<open>defaultRuleProcessorPostgREST\<close>

definition convertOperator :: "string \<Rightarrow> string" where
  "convertOperator op =
     (let a = (if op = ''='' then ''=='' else op);
          b = (if lowerCase a = ''notnull'' then ''neq'' else a)
      in if lowerCase b = ''null'' then ''=='' else b)"

definition negateIfNotOp :: "string \<Rightarrow> jsval \<Rightarrow> jsval" where
  "negateIfNotOp op jsonRule =
     (if take 3 (lowerCase op) = ''not'' \<or> take 7 (lowerCase op) = ''doesnot''
      then JObj [(''not'', jsonRule)] else jsonRule)"

text \<open>The second argument of a rule processor; the PostgREST processor reads
  \<open>parseNumbers\<close> only.\<close>

definition fieldOrNumberRenderer :: "Utils \<Rightarrow> bool \<Rightarrow> bool option \<Rightarrow> jsval \<Rightarrow> jsval" where
  "fieldOrNumberRenderer u valueIsField parseNumbers v =
     (if valueIsField then JObj [(''var'', JStr (toStr (numberToString u) v))]
      else if shouldRenderAsNumber u v parseNumbers then parseNumber u v parseNumbers
      else v)"

definition defaultRuleProcessorPostgREST :: "Utils \<Rightarrow> RuleType \<Rightarrow> bool option \<Rightarrow> jsval" where
  "defaultRuleProcessorPostgREST u rule parseNumbers =
     (let valueIsField = (valueSource rule = Some ''field'');
          fieldObject = JObj [(''var'', JStr (field rule))];
          render = fieldOrNumberRenderer u valueIsField parseNumbers;
          op = operator rule
      in
      if op = ''<'' \<or> op = ''<='' \<or> op = ''='' \<or> op = ''!='' \<or> op = ''>'' \<or> op = ''>='' then
        JObj [(convertOperator op, JArr [fieldObject, render (val rule)])]
      else if op = ''null'' \<or> op = ''notNull'' then
        JObj [((if op = ''notNull'' then ''!'' else ''='') @ ''='', JArr [fieldObject, JNull])]
      else if op = ''in'' \<or> op = ''notIn'' then
        (let valueAsArray = map render (toArray u (val rule))
         in negateIfNotOp op (JObj [(''in'', JArr [fieldObject, JArr valueAsArray])]))
      else if op = ''between'' \<or> op = ''notBetween'' then
        (let valueAsArray = toArray u (val rule) in
         if 2 \<le> length valueAsArray \<and> isValidValue u (valueAsArray ! 0)
            \<and> isValidValue u (valueAsArray ! 1)
         then
           (let first = valueAsArray ! 0;
                second = valueAsArray ! 1;
                bounds =
                  (if \<not> valueIsField \<and> shouldRenderAsNumber u first (Some True)
                      \<and> shouldRenderAsNumber u second (Some True)
                   then
                     (let firstNum = parseNumber u first (Some True);
                          secondNum = parseNumber u second (Some True)
                      in if jsLess (toNumber u) secondNum firstNum
                         then (secondNum, firstNum) else (firstNum, secondNum))
                   else if valueIsField
                   then (JObj [(''var'', first)], JObj [(''var'', second)])
                   else (first, second));
                jsonRule = JObj [(''<='', JArr [fst bounds, fieldObject, snd bounds])]
            in negateIfNotOp op jsonRule)
         else JBool False)
      else if op = ''contains'' \<or> op = ''doesNotContain'' then
        negateIfNotOp op (JObj [(''in'', JArr [render (val rule), fieldObject])])
      else if op = ''beginsWith'' \<or> op = ''doesNotBeginWith'' then
        negateIfNotOp op (JObj [(''startsWith'', JArr [fieldObject, render (val rule)])])
      else if op = ''endsWith'' \<or> op = ''doesNotEndWith'' then
        negateIfNotOp op (JObj [(''endsWith'', JArr [fieldObject, render (val rule)])])
      else JBool False)"

section \<open>parsePostgREST\<close>

subsection \<open>Type guards (parsePostgREST/utils.ts)\<close>

definition isPostgRESTVar :: "jsval \<Rightarrow> bool" where
  "isPostgRESTVar logic = hasKey ''var'' logic"

definition isRQBPostgRESTVar :: "jsval \<Rightarrow> bool" where
  "isRQBPostgRESTVar logic = (isPostgRESTVar logic \<and> isString (propOf logic ''var''))"

text \<open>\<open>logic.var\<close> of a value that passed \<open>isRQBPostgRESTVar\<close>.\<close>

definition varName :: "jsval \<Rightarrow> string" where
  "varName logic = (case propOf logic ''var'' of JStr s \<Rightarrow> s | _ \<Rightarrow> [])"

definition isPostgRESTEqual :: "jsval \<Rightarrow> bool" where
  "isPostgRESTEqual logic = hasKey ''=='' logic"

definition isPostgRESTStrictEqual :: "jsval \<Rightarrow> bool" where
  "isPostgRESTStrictEqual logic = hasKey ''==='' logic"

definition isPostgRESTNotEqual :: "jsval \<Rightarrow> bool" where
  "isPostgRESTNotEqual logic = hasKey ''!='' logic"

definition isPostgRESTStrictNotEqual :: "jsval \<Rightarrow> bool" where
  "isPostgRESTStrictNotEqual logic = hasKey ''!=='' logic"

definition isPostgRESTNegation :: "jsval \<Rightarrow> bool" where
  "isPostgRESTNegation logic = hasKey ''!'' logic"

definition isPostgRESTDoubleNegation :: "jsval \<Rightarrow> bool" where
  "isPostgRESTDoubleNegation logic = hasKey ''!!'' logic"

definition isPostgRESTOr :: "jsval \<Rightarrow> bool" where
  "isPostgRESTOr logic = hasKey ''or'' logic"

definition isPostgRESTAnd :: "jsval \<Rightarrow> bool" where
  "isPostgRESTAnd logic = hasKey ''and'' logic"

definition isPostgRESTGreaterThan :: "jsval \<Rightarrow> bool" where
  "isPostgRESTGreaterThan logic = hasKey ''>'' logic"

definition isPostgRESTGreaterThanOrEqual :: "jsval \<Rightarrow> bool" where
  "isPostgRESTGreaterThanOrEqual logic = hasKey ''>='' logic"

definition isPostgRESTLessThan :: "jsval \<Rightarrow> error + bool" where
  "isPostgRESTLessThan logic =
     (if hasKey ''<'' logic then lengthIs (propOf logic ''<'') 2 else Inr False)"

definition isPostgRESTLessThanOrEqual :: "jsval \<Rightarrow> error + bool" where
  "isPostgRESTLessThanOrEqual logic =
     (if hasKey ''<='' logic then lengthIs (propOf logic ''<='') 2 else Inr False)"

definition isPostgRESTInArray :: "jsval \<Rightarrow> error + bool" where
  "isPostgRESTInArray logic =
     (if hasKey ''in'' logic
      then (case jsIndex (propOf logic ''in'') 1 of Inl e \<Rightarrow> Inl e | Inr x \<Rightarrow> Inr (isArray x))
      else Inr False)"

definition isPostgRESTInString :: "jsval \<Rightarrow> error + bool" where
  "isPostgRESTInString logic =
     (if hasKey ''in'' logic
      then (case jsIndex (propOf logic ''in'') 1 of Inl e \<Rightarrow> Inl e | Inr x \<Rightarrow> Inr (\<not> isArray x))
      else Inr False)"

definition isPostgRESTBetweenExclusive :: "jsval \<Rightarrow> bool" where
  "isPostgRESTBetweenExclusive logic =
     (hasKey ''<'' logic \<and> (case propOf logic ''<'' of JArr xs \<Rightarrow> length xs = 3 | _ \<Rightarrow> False))"

definition isPostgRESTBetweenInclusive :: "jsval \<Rightarrow> bool" where
  "isPostgRESTBetweenInclusive logic =
     (hasKey ''<='' logic \<and> (case propOf logic ''<='' of JArr xs \<Rightarrow> length xs = 3 | _ \<Rightarrow> False))"

definition isRQBPostgRESTStartsWith :: "jsval \<Rightarrow> bool" where
  "isRQBPostgRESTStartsWith logic = hasKey ''startsWith'' logic"

definition isRQBPostgRESTEndsWith :: "jsval \<Rightarrow> bool" where
  "isRQBPostgRESTEndsWith logic = hasKey ''endsWith'' logic"

subsection \<open>Options and constants\<close>

text \<open>
  The options of \<open>parsePostgREST\<close>. \<open>fieldIsValid\<close> is the closure of that name, which
  the source builds from \<open>options.fields\<close> and \<open>options.getValueSources\<close> with
  \<open>fieldIsValidUtil\<close> and \<open>getFieldsArray\<close> (\<open>../parserUtils\<close>): field name, operator
  and the optional subordinate field name. An operation of \<open>PostgRESTOperations\<close> returns
  a rule, a group or \<open>false\<close> (\<open>None\<close>).
\<close>

record ParsePostgRESTOptions =
  fieldIsValid :: "string \<Rightarrow> string \<Rightarrow> string option \<Rightarrow> bool"
  listsAsArrays :: bool
  independentCombinators :: bool
  PostgRESTOperations :: "(string \<times> (jsval \<Rightarrow> RuleOrGroup option)) list option"

definition emptyRuleGroup :: RuleGroupType where
  "emptyRuleGroup = RuleGroup None ''and'' None []"

text \<open>Modelled from the spec: \<open>defaultOperatorNegationMap\<close> (\<open>../../defaults\<close>, not among
  the sources) at the five operators the parser looks up: each is replaced with its negated
  counterpart \<open>notBetween\<close>, \<open>notIn\<close>, \<open>doesNotContain\<close>, \<open>doesNotBeginWith\<close>,
  \<open>doesNotEndWith\<close>.\<close>

definition defaultOperatorNegationMap :: "string \<Rightarrow> string" where
  "defaultOperatorNegationMap op =
     (if op = ''between'' then ''notBetween''
      else if op = ''in'' then ''notIn''
      else if op = ''contains'' then ''doesNotContain''
      else if op = ''beginsWith'' then ''doesNotBeginWith''
      else if op = ''endsWith'' then ''doesNotEndWith''
      else op)"

subsection \<open>The parts of processLogic that do not recurse\<close>

text \<open>\<open>Object.entries(logic || {})?.[0] ?? []\<close>: the first own property of an object,
  the first element of an array or the first character of a string under the key
  \<open>"0"\<close>, and no key at all for every other value.\<close>

definition firstEntry :: "jsval \<Rightarrow> string option \<times> jsval" where
  "firstEntry logic = (case logic of
       JObj kvs \<Rightarrow> (case kvs of [] \<Rightarrow> (None, JUndefined) | kv # rest \<Rightarrow> (Some (fst kv), snd kv))
     | JArr xs \<Rightarrow> (case xs of [] \<Rightarrow> (None, JUndefined) | x # rest \<Rightarrow> (Some ''0'', x))
     | JStr cs \<Rightarrow> (case cs of [] \<Rightarrow> (None, JUndefined) | c # rest \<Rightarrow> (Some ''0'', JStr [c]))
     | _ \<Rightarrow> (None, JUndefined))"

text \<open>\<open>PostgRESTOperations && objectKeys(PostgRESTOperations).includes(key)\<close>, and the
  operation found.\<close>

definition customOperation ::
  "ParsePostgRESTOptions \<Rightarrow> string option \<Rightarrow> (jsval \<Rightarrow> RuleOrGroup option) option" where
  "customOperation opts key = (case PostgRESTOperations opts of
       None \<Rightarrow> None
     | Some ops \<Rightarrow> (case key of None \<Rightarrow> None | Some k \<Rightarrow> map_of ops k))"

text \<open>\<open>const [first, second] = keyValue\<close>: arrays and strings are iterable.\<close>

definition destructure2 :: "jsval \<Rightarrow> error + (jsval \<times> jsval)" where
  "destructure2 keyValue = (case keyValue of
       JArr xs \<Rightarrow> Inr (nthOrUndefined xs 0, nthOrUndefined xs 1)
     | JStr cs \<Rightarrow> Inr (charOrUndefined cs 0, charOrUndefined cs 1)
     | _ \<Rightarrow> Inl TypeError)"

text \<open>\<open>a || b\<close> where either side can throw; \<open>b\<close> is evaluated only when \<open>a\<close> is
  false.\<close>

definition orElse :: "error + bool \<Rightarrow> error + bool \<Rightarrow> error + bool" where
  "orElse a b = (case a of Inl e \<Rightarrow> Inl e | Inr x \<Rightarrow> if x then Inr True else b)"

text \<open>The condition of the first branch of the rule part ("Basic boolean operations").\<close>

definition isBasicOperation :: "jsval \<Rightarrow> error + bool" where
  "isBasicOperation logic =
     orElse (Inr (isPostgRESTEqual logic \<or> isPostgRESTStrictEqual logic
                  \<or> isPostgRESTNotEqual logic \<or> isPostgRESTStrictNotEqual logic
                  \<or> isPostgRESTGreaterThan logic \<or> isPostgRESTGreaterThanOrEqual logic))
    (orElse (isPostgRESTLessThan logic)
    (orElse (isPostgRESTLessThanOrEqual logic)
    (orElse (isPostgRESTInString logic)
            (Inr (isRQBPostgRESTStartsWith logic \<or> isRQBPostgRESTEndsWith logic)))))"

text \<open>"Translate operator if necessary".\<close>

definition translateOperator :: "jsval \<Rightarrow> string option \<Rightarrow> jsval \<Rightarrow> error + string" where
  "translateOperator logic key v =
     (if isPostgRESTEqual logic \<or> isPostgRESTStrictEqual logic
      then Inr (if v = JNull then ''null'' else ''='')
      else if isPostgRESTNotEqual logic \<or> isPostgRESTStrictNotEqual logic
      then Inr (if v = JNull then ''notNull'' else ''!='')
      else (case isPostgRESTInString logic of
              Inl e \<Rightarrow> Inl e
            | Inr inString \<Rightarrow>
                Inr (if inString then ''contains''
                     else if isRQBPostgRESTStartsWith logic then ''beginsWith''
                     else if isRQBPostgRESTEndsWith logic then ''endsWith''
                     else (case key of Some k \<Rightarrow> k | None \<Rightarrow> []))))"

definition mkRule :: "string \<Rightarrow> string \<Rightarrow> jsval \<Rightarrow> string option \<Rightarrow> RuleType" where
  "mkRule f op v vs =
     \<lparr>rid = None, field = f, operator = op, val = v, valueSource = vs, rule_not = None\<rparr>"

text \<open>The first branch: a comparison of a field with a value or with another field.
  The result is the variable \<open>rule\<close> of the source (\<open>None\<close> for \<open>false\<close>); the
  \<open>return false\<close> of the branch is \<open>None\<close> as well.\<close>

definition processBasic ::
  "ParsePostgRESTOptions \<Rightarrow> jsval \<Rightarrow> string option \<Rightarrow> jsval \<Rightarrow> error + RuleType option" where
  "processBasic opts logic key keyValue =
     (case destructure2 keyValue of
        Inl e \<Rightarrow> Inl e
      | Inr fs \<Rightarrow>
          (let first = fst fs; second = snd fs;
               operands =
                 (if isRQBPostgRESTVar first \<and> \<not> isPojo second
                  then Some (varName first, second, None)
                  else if \<not> isPojo first \<and> isRQBPostgRESTVar second
                  then Some (varName second, first, None)
                  else if isRQBPostgRESTVar first \<and> isRQBPostgRESTVar second
                  then Some (varName first, JStr (varName second), Some ''field'')
                  else None)
           in case operands of
                None \<Rightarrow> Inr None
              | Some (f, v, vs) \<Rightarrow>
                  (case translateOperator logic key v of
                     Inl e \<Rightarrow> Inl e
                   | Inr op \<Rightarrow>
                       Inr (if fieldIsValid opts f op
                                 (if vs = Some ''field'' then Some (varName second) else None)
                            then Some (mkRule f op v vs) else None))))"

text \<open>\<open>value.length\<close> of the \<open>value\<close> built by the list branches: a string or an array.\<close>

definition valueLength :: "jsval \<Rightarrow> nat" where
  "valueLength v = (case v of JStr s \<Rightarrow> length s | JArr xs \<Rightarrow> length xs | _ \<Rightarrow> 0)"

text \<open>The value of a list of literals: the array itself with \<open>listsAsArrays\<close>, otherwise
  the elements printed and joined with a comma; the empty string (the initial
  \<open>value\<close>) when the elements are not all strings, all numbers or all booleans.\<close>

definition literalList :: "ParsePostgRESTOptions \<Rightarrow> Utils \<Rightarrow> jsval list \<Rightarrow> jsval" where
  "literalList opts u vs =
     (if list_all isString vs \<or> list_all isNumber vs \<or> list_all isBoolean vs
      then (if listsAsArrays opts then JArr vs
            else JStr (joinWith u (map (toStr (numberToString u)) vs) '',''))
      else JStr [])"

text \<open>The value of a list of field references: the names that \<open>fieldIsValid\<close> accepts
  as subordinate fields.\<close>

definition fieldList ::
  "ParsePostgRESTOptions \<Rightarrow> Utils \<Rightarrow> string \<Rightarrow> string \<Rightarrow> jsval list \<Rightarrow> jsval" where
  "fieldList opts u f op vars =
     (let names = filter (\<lambda>sf. fieldIsValid opts f op (Some sf)) (map varName vars)
      in if listsAsArrays opts then JArr (map JStr names) else JStr (joinWith u names '',''))"

text \<open>The branch \<open>isPostgRESTBetweenInclusive(logic) && isRQBPostgRESTVar(logic['<='][1])\<close>,
  entered with the three elements of \<open>logic['<=']\<close>.\<close>

definition processBetweenInclusive ::
  "ParsePostgRESTOptions \<Rightarrow> Utils \<Rightarrow> jsval list \<Rightarrow> RuleType option" where
  "processBetweenInclusive opts u xs =
     (let f = varName (nthOrUndefined xs 1);
          op = ''between'';
          vals = [nthOrUndefined xs 0, nthOrUndefined xs 2];
          allVars = list_all isRQBPostgRESTVar xs;
          vs = (if allVars then Some ''field'' else None);
          v = (if allVars then fieldList opts u f op vals else literalList opts u vals)
      in if fieldIsValid opts f op None \<and> 2 \<le> valueLength v
         then Some (mkRule f op v vs) else None)"

text \<open>The branch \<open>isPostgRESTInArray(logic) && isRQBPostgRESTVar(keyValue[0])\<close>, entered
  with \<open>keyValue[0]\<close> and the array \<open>logic.in[1]\<close>.\<close>

definition processInArray ::
  "ParsePostgRESTOptions \<Rightarrow> Utils \<Rightarrow> jsval \<Rightarrow> jsval list \<Rightarrow> RuleType option" where
  "processInArray opts u kv0 xs =
     (let f = varName kv0;
          op = ''in'';
          allVars = list_all isRQBPostgRESTVar xs;
          vs = (if allVars then Some ''field'' else None);
          v = (if allVars then fieldList opts u f op xs else literalList opts u xs)
      in if 0 < valueLength v then Some (mkRule f op v vs) else None)"

text \<open>The two list branches, tried in the order of the source after the basic operations
  and the exclusive "between" have not applied.\<close>

definition processLists ::
  "ParsePostgRESTOptions \<Rightarrow> Utils \<Rightarrow> jsval \<Rightarrow> jsval \<Rightarrow> error + RuleType option" where
  "processLists opts u logic keyValue =
     (if isPostgRESTBetweenInclusive logic
         \<and> isRQBPostgRESTVar (case propOf logic ''<='' of JArr xs \<Rightarrow> nthOrUndefined xs 1 | _ \<Rightarrow> JUndefined)
      then Inr (processBetweenInclusive opts u (case propOf logic ''<='' of JArr xs \<Rightarrow> xs | _ \<Rightarrow> []))
      else (case isPostgRESTInArray logic of
              Inl e \<Rightarrow> Inl e
            | Inr inArray \<Rightarrow>
                if \<not> inArray then Inr None
                else (case jsIndex keyValue 0 of
                        Inl e \<Rightarrow> Inl e
                      | Inr kv0 \<Rightarrow>
                          if isRQBPostgRESTVar kv0
                          then (case jsIndex (propOf logic ''in'') 1 of
                                  Inl e \<Rightarrow> Inl e
                                | Inr arr \<Rightarrow> Inr (processInArray opts u kv0
                                      (case arr of JArr xs \<Rightarrow> xs | _ \<Rightarrow> [])))
                          else Inr None)))"

text \<open>\<open>return rule ? (outermost ? { combinator: 'and', rules: [rule] } : rule) : false\<close>.\<close>

definition finishRule :: "bool \<Rightarrow> RuleType option \<Rightarrow> RuleOrGroup option" where
  "finishRule outermost rule = (case rule of
       None \<Rightarrow> None
     | Some r \<Rightarrow> Some (if outermost then GroupItem (RuleGroup None ''and'' None [RuleItem r])
                       else RuleItem r))"

text \<open>What the negation branch makes of the parsed operand \<open>rule\<close> (truthy).\<close>

definition negateParsed :: "bool \<Rightarrow> jsval \<Rightarrow> RuleOrGroup \<Rightarrow> RuleOrGroup" where
  "negateParsed outermost operand rule = (case rule of
       RuleItem r \<Rightarrow>
         if operator r = ''between'' \<or> operator r = ''in'' \<or> operator r = ''contains''
            \<or> operator r = ''beginsWith'' \<or> operator r = ''endsWith''
         then (let newRule = r\<lparr>operator := defaultOperatorNegationMap (operator r)\<rparr>
               in if outermost then GroupItem (RuleGroup None ''and'' None [RuleItem newRule])
                  else RuleItem newRule)
         else if isPostgRESTBetweenExclusive operand
         then RuleItem (r\<lparr>rule_not := Some True\<rparr>)
         else GroupItem (RuleGroup None ''and'' (Some True) [RuleItem r])
     | GroupItem g \<Rightarrow> GroupItem (RuleGroup (gid g) (combinator g) (Some True) (rules g)))"

text \<open>The object that the exclusive "between" branch hands back to \<open>processLogic\<close>.\<close>

definition betweenExclusiveAsAnd :: "string \<Rightarrow> jsval \<Rightarrow> jsval \<Rightarrow> jsval" where
  "betweenExclusiveAsAnd f v0 v1 =
     JObj [(''and'', JArr [JObj [(''>'', JArr [JObj [(''var'', JStr f)], v0])],
                           JObj [(''<'', JArr [JObj [(''var'', JStr f)], v1])]])]"

definition betweenExclusiveValuesOk :: "jsval list \<Rightarrow> bool" where
  "betweenExclusiveValuesOk vals =
     (list_all isRQBPostgRESTVar vals \<or> list_all isString vals
      \<or> list_all isNumber vals \<or> list_all isBoolean vals)"

text \<open>\<open>xs.map(f)\<close> where \<open>f\<close> can throw: the first error, or all results.\<close>

fun collect :: "(error + 'a) list \<Rightarrow> error + 'a list" where
  "collect [] = Inr []"
| "collect (x # xs) =
     (case x of Inl e \<Rightarrow> Inl e
      | Inr y \<Rightarrow> (case collect xs of Inl e \<Rightarrow> Inl e | Inr ys \<Rightarrow> Inr (y # ys)))"

text \<open>\<open>.filter(Boolean)\<close> on parsed results.\<close>

fun somes :: "'a option list \<Rightarrow> 'a list" where
  "somes [] = []"
| "somes (None # xs) = somes xs"
| "somes (Some x # xs) = x # somes xs"

subsection \<open>processLogic\<close>

text \<open>
  \<open>processLogic\<close> recurses into the operands of \<open>and\<close>, \<open>or\<close>, \<open>!\<close> and \<open>!!\<close>,
  and once more on the object it builds for an exclusive "between". The latter object is
  not a part of the input, so the recursion is not structural: each call either removes one
  three-element \<open><\<close> (counted by \<open>betweenExclusiveCount\<close>) or descends into a proper
  part of the input.
\<close>

fun betweenExclusiveCount :: "jsval \<Rightarrow> nat" where
  "betweenExclusiveCount (JArr xs) = sum_list (map betweenExclusiveCount xs)"
| "betweenExclusiveCount (JObj kvs) =
     (if isPostgRESTBetweenExclusive (JObj kvs) then 1 else 0) + sum_list (map (\<lambda>kv. betweenExclusiveCount (snd kv)) kvs)"
| "betweenExclusiveCount v = 0"

function processLogic ::
  "ParsePostgRESTOptions \<Rightarrow> Utils \<Rightarrow> jsval \<Rightarrow> bool \<Rightarrow> error + RuleOrGroup option" where
  "processLogic opts u logic outermost =
     (if outermost \<and> \<not> isPojo logic then Inr None
      else
        (case customOperation opts (fst (firstEntry logic)) of
           Some operation \<Rightarrow>
             (case operation (snd (firstEntry logic)) of
                None \<Rightarrow> Inr None
              | Some rule \<Rightarrow>
                  Inr (Some (if outermost \<and> \<not> isRuleGroup rule
                             then GroupItem (RuleGroup None ''and'' None [rule]) else rule)))
         | None \<Rightarrow>
             if isPostgRESTAnd logic then
               (case propOf logic ''and'' of
                  JArr ls \<Rightarrow>
                    (case collect (map (\<lambda>l. processLogic opts u l False) ls) of
                       Inl e \<Rightarrow> Inl e
                     | Inr rs \<Rightarrow> Inr (Some (GroupItem (RuleGroup None ''and'' None (somes rs)))))
                | _ \<Rightarrow> Inl TypeError)
             else if isPostgRESTOr logic then
               (case propOf logic ''or'' of
                  JArr ls \<Rightarrow>
                    (case collect (map (\<lambda>l. processLogic opts u l False) ls) of
                       Inl e \<Rightarrow> Inl e
                     | Inr rs \<Rightarrow> Inr (Some (GroupItem (RuleGroup None ''or'' None (somes rs)))))
                | _ \<Rightarrow> Inl TypeError)
             else if isPostgRESTNegation logic then
               (case processLogic opts u (propOf logic ''!'') False of
                  Inl e \<Rightarrow> Inl e
                | Inr None \<Rightarrow> Inr None
                | Inr (Some rule) \<Rightarrow> Inr (Some (negateParsed outermost (propOf logic ''!'') rule)))
             else if isPostgRESTDoubleNegation logic then
               processLogic opts u (propOf logic ''!!'') False
             else
               (case isBasicOperation logic of
                  Inl e \<Rightarrow> Inl e
                | Inr basic \<Rightarrow>
                    if basic then
                      (case processBasic opts logic (fst (firstEntry logic)) (snd (firstEntry logic)) of
                         Inl e \<Rightarrow> Inl e
                       | Inr rule \<Rightarrow> Inr (finishRule outermost rule))
                    else if isPostgRESTBetweenExclusive logic
                         \<and> isRQBPostgRESTVar (case propOf logic ''<'' of JArr xs \<Rightarrow> nthOrUndefined xs 1 | _ \<Rightarrow> JUndefined)
                    then
                      (case propOf logic ''<'' of
                         JArr xs \<Rightarrow>
                           if betweenExclusiveValuesOk [nthOrUndefined xs 0, nthOrUndefined xs 2]
                           then processLogic opts u
                                  (betweenExclusiveAsAnd (varName (nthOrUndefined xs 1))
                                     (nthOrUndefined xs 0) (nthOrUndefined xs 2)) False
                           else Inr None
                       | _ \<Rightarrow> Inr None)
                    else
                      (case processLists opts u logic (snd (firstEntry logic)) of
                         Inl e \<Rightarrow> Inl e
                       | Inr rule \<Rightarrow> Inr (finishRule outermost rule)))))"
  by pat_completeness auto

lemma betweenExclusiveCount_mem: "l \<in> set ls \<Longrightarrow> betweenExclusiveCount l \<le> sum_list (map betweenExclusiveCount ls)"
  by (induction ls) auto

lemma size_mem: "l \<in> set ls \<Longrightarrow> size l < Suc (size_list size ls)"
  by (induction ls) auto

lemma betweenExclusiveCount_map_of: "map_of kvs k = Some v \<Longrightarrow> betweenExclusiveCount v \<le> sum_list (map (\<lambda>kv. betweenExclusiveCount (snd kv)) kvs)"
  by (induction kvs) (auto split: if_splits)

lemma size_map_of: "map_of kvs k = Some v \<Longrightarrow> size v < Suc (size_list (size_prod (\<lambda>x. 0) size) kvs)"
  by (induction kvs) (auto split: if_splits)

lemma propOf_betweenExclusiveCount:
  assumes "hasKey k logic"
  shows "betweenExclusiveCount (propOf logic k) \<le> betweenExclusiveCount logic"
proof -
  from assms obtain kvs v where l: "logic = JObj kvs" and m: "map_of kvs k = Some v"
    by (cases logic) (auto simp: hasKey_def)
  have "betweenExclusiveCount v \<le> sum_list (map (\<lambda>kv. betweenExclusiveCount (snd kv)) kvs)"
    using m by (rule betweenExclusiveCount_map_of)
  then show ?thesis
    using l m by (simp add: propOf_def)
qed

lemma propOf_size: "hasKey k logic \<Longrightarrow> size (propOf logic k) < size logic"
  by (cases logic) (auto simp: hasKey_def propOf_def dest: size_map_of)

lemma nthOrUndefined_betweenExclusiveCount: "betweenExclusiveCount (nthOrUndefined xs i) \<le> sum_list (map betweenExclusiveCount xs)"
  by (induction xs i rule: nthOrUndefined.induct) auto

lemma between_betweenExclusiveCount:
  assumes "isPostgRESTBetweenExclusive logic" "propOf logic ''<'' = JArr xs"
  shows "betweenExclusiveCount (betweenExclusiveAsAnd f (nthOrUndefined xs 0) (nthOrUndefined xs 2)) < betweenExclusiveCount logic"
proof -
  from assms obtain kvs where l: "logic = JObj kvs" and k: "hasKey ''<'' logic" and len: "length xs = 3"
    by (cases logic) (auto simp: isPostgRESTBetweenExclusive_def hasKey_def)
  from len obtain a b c where xs: "xs = [a, b, c]"
    by (cases xs; cases "tl xs"; cases "tl (tl xs)") auto
  have "betweenExclusiveCount (JArr xs) \<le> sum_list (map (\<lambda>kv. betweenExclusiveCount (snd kv)) kvs)"
    using propOf_betweenExclusiveCount[OF k] assms(2) betweenExclusiveCount_map_of[of kvs "''<''" "JArr xs"] l k
    by (auto simp: hasKey_def propOf_def split: option.splits)
  moreover have "betweenExclusiveCount (betweenExclusiveAsAnd f a c) = betweenExclusiveCount a + betweenExclusiveCount c"
    by (simp add: betweenExclusiveAsAnd_def isPostgRESTBetweenExclusive_def hasKey_def propOf_def)
  ultimately show ?thesis using assms(1) l xs by (simp add: eval_nat_numeral)
qed

termination processLogic
  apply (relation "measures [\<lambda>(opts, u, logic, outermost). betweenExclusiveCount logic, \<lambda>(opts, u, logic, outermost). size logic]")
       apply simp
  subgoal for opts u logic outermost ls l
    using propOf_betweenExclusiveCount[of "''and''" logic] propOf_size[of "''and''" logic] betweenExclusiveCount_mem[of l ls] size_mem[of l ls]
    by (auto simp: isPostgRESTAnd_def)
  subgoal for opts u logic outermost ls l
    using propOf_betweenExclusiveCount[of "''or''" logic] propOf_size[of "''or''" logic] betweenExclusiveCount_mem[of l ls] size_mem[of l ls]
    by (auto simp: isPostgRESTOr_def)
  subgoal for opts u logic outermost
    using propOf_betweenExclusiveCount[of "''!''" logic] propOf_size[of "''!''" logic]
    by (auto simp: isPostgRESTNegation_def)
  subgoal for opts u logic outermost
    using propOf_betweenExclusiveCount[of "''!!''" logic] propOf_size[of "''!!''" logic]
    by (auto simp: isPostgRESTDoubleNegation_def)
  subgoal for opts u logic outermost basic xs
    using between_betweenExclusiveCount[of logic xs] by simp
  done

declare processLogic.simps [simp del]

text \<open>The result of \<open>parsePostgREST\<close>: the query of the source's \<open>finalQuery\<close>, which the
  types declare to be a group, or its conversion to independent combinators.\<close>

datatype ParseResult = Query RuleOrGroup | QueryIC RuleGroupTypeIC

definition parsePostgREST ::
  "ParsePostgRESTOptions \<Rightarrow> Utils \<Rightarrow> jsval \<Rightarrow> error + ParseResult" where
  "parsePostgREST opts u rqbPostgREST =
     (case (case rqbPostgREST of JStr s \<Rightarrow> JSON_parse u s | _ \<Rightarrow> Some rqbPostgREST) of
        None \<Rightarrow> Inr (Query (GroupItem emptyRuleGroup))
      | Some logicRoot \<Rightarrow>
          (case processLogic opts u logicRoot True of
             Inl e \<Rightarrow> Inl e
           | Inr result \<Rightarrow>
               (let finalQuery = (case result of Some q \<Rightarrow> q | None \<Rightarrow> GroupItem emptyRuleGroup)
                in Inr (if independentCombinators opts then QueryIC (convertToIC u finalQuery)
                        else Query finalQuery))))"

text \<open>The call \<open>parsePostgREST(x)\<close> with no options. Modelled from the spec: a
  reconstructed rule is checked against the field registry only "if a registry was
  supplied"; with no \<open>fields\<close> the closure \<open>fieldIsValid\<close> accepts every field.\<close>

definition noOptions :: ParsePostgRESTOptions where
  "noOptions = \<lparr>fieldIsValid = (\<lambda>f op sf. True), listsAsArrays = False,
                 independentCombinators = False, PostgRESTOperations = None\<rparr>"

section \<open>formatQuery\<close>

subsection \<open>Types\<close>

datatype ExportFormat =
    json | sql | json_without_ids | parameterized | parameterized_named | mongodb | cel
  | jsonlogic | spel | elasticsearch | jsonata | natural_language | postgrest

datatype SQLPreset = ansi | sqlite | postgresql | mysql | mssql | oracle_preset

text \<open>A validation result is a boolean or an object \<open>{valid, reasons}\<close>; a validation map
  gives one to some ids; a query validator returns a boolean or a validation map.\<close>

datatype ValidationResult = Plain bool | Detailed bool "jsval list"

type_synonym ValidationMap = "string \<Rightarrow> ValidationResult option"

datatype ValidatorResult = Whole bool | PerNode ValidationMap

type_synonym RuleValidator = "RuleType \<Rightarrow> ValidationResult"

record FullField =
  ff_name :: string
  ff_validator :: "RuleValidator option"

text \<open>The view of a group that the string formats work on: \<open>RuleGroupTypeAny\<close> as one
  type, a group with or without a combinator of its own, whose \<open>rules\<close> hold rules,
  groups and combinator strings.\<close>

datatype AnyGroup =
    AnyGroup (aid: "string option") (acombinator: "string option") (anot: "bool option")
      (arules: "AnyItem list")
and AnyItem =
    AnyRule RuleType
  | AnyGroupItem AnyGroup
  | AnyCombinator string

fun anyOfStandard :: "RuleGroupType \<Rightarrow> AnyGroup"
  and anyItemOfStandard :: "RuleOrGroup \<Rightarrow> AnyItem" where
  "anyOfStandard (RuleGroup i c n rs) = AnyGroup i (Some c) n (map anyItemOfStandard rs)"
| "anyItemOfStandard (RuleItem r) = AnyRule r"
| "anyItemOfStandard (GroupItem g) = AnyGroupItem (anyOfStandard g)"

fun anyOfIC :: "RuleGroupTypeIC \<Rightarrow> AnyGroup"
  and anyItemOfIC :: "RuleOrGroupIC \<Rightarrow> AnyItem" where
  "anyOfIC (RuleGroupIC i n rs) = AnyGroup i None n (map anyItemOfIC rs)"
| "anyItemOfIC (RuleIC r) = AnyRule r"
| "anyItemOfIC (GroupIC g) = AnyGroupItem (anyOfIC g)"
| "anyItemOfIC (CombinatorIC s) = AnyCombinator s"

definition anyOf :: "RuleGroupTypeAny \<Rightarrow> AnyGroup" where
  "anyOf q = (case q of Standard g \<Rightarrow> anyOfStandard g | IndependentCombinators g \<Rightarrow> anyOfIC g)"

text \<open>The options object a rule or value processor receives. Each region of
  \<open>formatQuery\<close> passes some of the properties; an absent one is \<open>None\<close>.\<close>

record ValueProcessorOptions =
  vp_parseNumbers :: bool
  vp_format :: ExportFormat
  vp_fieldData :: "FullField option"
  vp_escapeQuotes :: "bool option"
  vp_quoteFieldNamesWith :: "(string \<times> string) option"
  vp_fieldIdentifierSeparator :: "string option"
  vp_quoteValuesWith :: "string option"
  vp_concatOperator :: "string option"
  vp_fields :: "FullField list option"
  vp_getOperators :: "(string \<Rightarrow> FullField option \<Rightarrow> jsval list) option"
  vp_fieldParamNames :: "(string \<times> string list) list option"
  vp_paramPrefix :: "string option"
  vp_paramsKeepPrefix :: "bool option"
  vp_numberedParams :: "bool option"
  vp_fallbackExpression :: "string option"
  vp_placeholderFieldName :: "string option"
  vp_placeholderOperatorName :: "string option"
  vp_validator :: "(RuleGroupTypeAny \<Rightarrow> ValidatorResult) option"

type_synonym ValueProcessorByRule = "RuleType \<Rightarrow> ValueProcessorOptions \<Rightarrow> jsval"

type_synonym ValueProcessorLegacy = "string \<Rightarrow> string \<Rightarrow> jsval \<Rightarrow> string option \<Rightarrow> jsval"

datatype ValueProcessor = Legacy ValueProcessorLegacy | ByRule ValueProcessorByRule

text \<open>
  A rule processor is called with the rule, the options, the \<open>valueProcessor\<close> of the
  options when the region passes one, and \<open>meta.processedParams\<close> when the region passes
  it. It returns a value; its calls of \<open>getNextNamedParam\<close>, the one effect the options
  give it, are the list of the field names it called it with, in order.
\<close>

type_synonym RuleProcessor =
  "RuleType \<Rightarrow> ValueProcessorOptions \<Rightarrow> ValueProcessorByRule option \<Rightarrow> jsval list option
     \<Rightarrow> jsval \<times> string list"

record FormatQueryOptions =
  opt_format :: "ExportFormat option"
  opt_valueProcessor :: "ValueProcessor option"
  opt_ruleProcessor :: "RuleProcessor option"
  opt_quoteFieldNamesWith :: "(string + string \<times> string) option"
  opt_fieldIdentifierSeparator :: "string option"
  opt_quoteValuesWith :: "string option"
  opt_validator :: "(RuleGroupTypeAny \<Rightarrow> ValidatorResult) option"
  opt_fields :: "FullField list option"
  opt_getOperators :: "(string \<Rightarrow> FullField option \<Rightarrow> jsval list option) option"
  opt_fallbackExpression :: "string option"
  opt_paramPrefix :: "string option"
  opt_paramsKeepPrefix :: "bool option"
  opt_numberedParams :: "bool option"
  opt_parseNumbers :: "bool option"
  opt_placeholderFieldName :: "string option"
  opt_placeholderOperatorName :: "string option"
  opt_concatOperator :: "string option"
  opt_preset :: "SQLPreset option"

datatype FormatQueryArgument = FormatName ExportFormat | FormatOptions FormatQueryOptions

text \<open>
  What \<open>formatQuery\<close> imports from files that are not among the sources: the default
  processors of the other formats, the option list utilities (\<open>../optGroupUtils\<close>), the
  conversion from independent combinators, \<open>celCombinatorMap\<close> and \<open>numerifyValues\<close>
  (applied through \<open>produce\<close>, which returns the new tree).
\<close>

record Imports =
  defaultValueProcessorByRule :: ValueProcessorByRule
  defaultValueProcessorNL :: ValueProcessorByRule
  defaultRuleProcessorSQL :: RuleProcessor
  defaultRuleProcessorParameterized :: RuleProcessor
  defaultRuleProcessorNL :: RuleProcessor
  defaultRuleProcessorMongoDB :: RuleProcessor
  defaultRuleProcessorCEL :: RuleProcessor
  defaultRuleProcessorSpEL :: RuleProcessor
  defaultRuleProcessorJsonLogic :: RuleProcessor
  defaultRuleProcessorElasticSearch :: RuleProcessor
  defaultRuleProcessorJSONata :: RuleProcessor
  toFullOptionList :: "FullField list \<Rightarrow> FullField list"
  toFlatOptionArray :: "FullField list \<Rightarrow> FullField list"
  getOption :: "FullField list \<Rightarrow> string \<Rightarrow> FullField option"
  toFullOperatorList :: "jsval list \<Rightarrow> jsval list"
  convertFromIC :: "RuleGroupTypeIC \<Rightarrow> RuleGroupType"
  celCombinatorMap :: "string \<Rightarrow> jsval"
  numerifyValues :: "RuleGroupTypeAny \<Rightarrow> RuleGroupTypeAny"

text \<open>The local variables of \<open>formatQuery\<close> after the options are read.\<close>

record Config =
  format :: ExportFormat
  valueProcessorInternal :: ValueProcessorByRule
  ruleProcessorInternal :: "RuleProcessor option"
  quoteFieldNamesWith :: "string \<times> string"
  fieldIdentifierSeparator :: string
  validator :: "RuleGroupTypeAny \<Rightarrow> ValidatorResult"
  fieldOptions :: "FullField list"
  getOperators :: "string \<Rightarrow> FullField option \<Rightarrow> jsval list"
  fallbackExpression :: string
  paramPrefix :: string
  paramsKeepPrefix :: bool
  numberedParams :: bool
  parseNumbers :: bool
  placeholderFieldName :: string
  placeholderOperatorName :: string
  quoteValuesWith :: string
  concatOperator :: string

subsection \<open>Reading the options\<close>

definition defaultPlaceholderFieldName :: string where
  "defaultPlaceholderFieldName = ''~''"

definition defaultPlaceholderOperatorName :: string where
  "defaultPlaceholderOperatorName = ''~''"

text \<open>\<open>getQuoteFieldNamesWithArray\<close> (\<open>./utils\<close>), as the documentation of the option
  \<open>quoteFieldNamesWith\<close> describes it: field names are bracketed by the one string, or
  preceded by the first and succeeded by the second of two; the default is the empty
  string.\<close>

definition getQuoteFieldNamesWithArray :: "(string + string \<times> string) option \<Rightarrow> string \<times> string" where
  "getQuoteFieldNamesWithArray q = (case q of
       None \<Rightarrow> ([], [])
     | Some (Inl s) \<Rightarrow> (s, s)
     | Some (Inr ab) \<Rightarrow> ab)"

definition doubleQuote :: string where
  "doubleQuote = [CHR 0x22]"

text \<open>\<open>sqlDialectPresets\<close>, as the options object each preset stands for.\<close>

definition emptyOptions :: FormatQueryOptions where
  "emptyOptions =
     \<lparr>opt_format = None, opt_valueProcessor = None, opt_ruleProcessor = None,
      opt_quoteFieldNamesWith = None, opt_fieldIdentifierSeparator = None,
      opt_quoteValuesWith = None, opt_validator = None, opt_fields = None,
      opt_getOperators = None, opt_fallbackExpression = None, opt_paramPrefix = None,
      opt_paramsKeepPrefix = None, opt_numberedParams = None, opt_parseNumbers = None,
      opt_placeholderFieldName = None, opt_placeholderOperatorName = None,
      opt_concatOperator = None, opt_preset = None\<rparr>"

definition sqlDialectPresets :: "SQLPreset \<Rightarrow> FormatQueryOptions" where
  "sqlDialectPresets p = (case p of
       ansi \<Rightarrow> emptyOptions
     | sqlite \<Rightarrow> emptyOptions\<lparr>opt_paramsKeepPrefix := Some True\<rparr>
     | oracle_preset \<Rightarrow> emptyOptions
     | mssql \<Rightarrow> emptyOptions\<lparr>opt_concatOperator := Some ''+'',
                              opt_quoteFieldNamesWith := Some (Inr (''['', '']'')),
                              opt_fieldIdentifierSeparator := Some ''.''\<rparr>
     | mysql \<Rightarrow> emptyOptions\<lparr>opt_concatOperator := Some ''CONCAT''\<rparr>
     | postgresql \<Rightarrow> emptyOptions\<lparr>opt_quoteFieldNamesWith := Some (Inl doubleQuote),
                                   opt_numberedParams := Some True,
                                   opt_paramPrefix := Some ''$''\<rparr>)"

text \<open>\<open>{ ...preset, ...options }\<close>: a property of the options wins over the preset's.\<close>

definition orPreset :: "'a option \<Rightarrow> 'a option \<Rightarrow> 'a option" where
  "orPreset own preset = (case own of Some x \<Rightarrow> Some x | None \<Rightarrow> preset)"

definition optionsWithPresets :: "FormatQueryOptions \<Rightarrow> FormatQueryOptions" where
  "optionsWithPresets options =
     (let preset = sqlDialectPresets (case opt_preset options of Some p \<Rightarrow> p | None \<Rightarrow> ansi)
      in options
         \<lparr>opt_quoteFieldNamesWith :=
            orPreset (opt_quoteFieldNamesWith options) (opt_quoteFieldNamesWith preset),
          opt_fieldIdentifierSeparator :=
            orPreset (opt_fieldIdentifierSeparator options) (opt_fieldIdentifierSeparator preset),
          opt_paramPrefix := orPreset (opt_paramPrefix options) (opt_paramPrefix preset),
          opt_paramsKeepPrefix :=
            orPreset (opt_paramsKeepPrefix options) (opt_paramsKeepPrefix preset),
          opt_numberedParams := orPreset (opt_numberedParams options) (opt_numberedParams preset),
          opt_concatOperator := orPreset (opt_concatOperator options) (opt_concatOperator preset)\<rparr>)"

text \<open>A rule processor called as a value processor: with the rule and the options
  only.\<close>

definition asValueProcessor :: "RuleProcessor \<Rightarrow> ValueProcessorByRule" where
  "asValueProcessor rp = (\<lambda>r opts. fst (rp r opts None None))"

text \<open>The PostgREST rule processor of the previous section as a rule processor.\<close>

definition ruleProcessorPostgREST :: "Utils \<Rightarrow> RuleProcessor" where
  "ruleProcessorPostgREST u =
     (\<lambda>r opts vp meta. (defaultRuleProcessorPostgREST u r (Some (vp_parseNumbers opts)), []))"

definition orElseProcessor :: "RuleProcessor option \<Rightarrow> RuleProcessor \<Rightarrow> RuleProcessor" where
  "orElseProcessor custom dflt = (case custom of Some rp \<Rightarrow> rp | None \<Rightarrow> dflt)"

text \<open>The fallback expression of a format when the options give none (or the empty
  string).\<close>

definition defaultFallbackExpression :: "ExportFormat \<Rightarrow> string" where
  "defaultFallbackExpression fmt =
     (if fmt = mongodb then doubleQuote @ ''$and'' @ doubleQuote @ '':[{'' @ doubleQuote @ ''$expr''
                            @ doubleQuote @ '':true}]''
      else if fmt = cel \<or> fmt = spel then ''1 == 1''
      else if fmt = natural_language then ''1 is 1''
      else ''(1 = 1)'')"

text \<open>\<open>formatQuery(ruleGroup, 'sql')\<close>: the options are a format name.\<close>

definition configOfName :: "Utils \<Rightarrow> Imports \<Rightarrow> ExportFormat \<Rightarrow> Config" where
  "configOfName u d fmt =
     \<lparr>format = fmt,
      valueProcessorInternal = defaultValueProcessorByRule d,
      ruleProcessorInternal = (case fmt of
           natural_language \<Rightarrow> Some (defaultRuleProcessorNL d)
         | mongodb \<Rightarrow> Some (defaultRuleProcessorMongoDB d)
         | parameterized \<Rightarrow> Some (defaultRuleProcessorParameterized d)
         | parameterized_named \<Rightarrow> Some (defaultRuleProcessorParameterized d)
         | cel \<Rightarrow> Some (defaultRuleProcessorCEL d)
         | spel \<Rightarrow> Some (defaultRuleProcessorSpEL d)
         | jsonlogic \<Rightarrow> Some (defaultRuleProcessorJsonLogic d)
         | elasticsearch \<Rightarrow> Some (defaultRuleProcessorElasticSearch d)
         | jsonata \<Rightarrow> Some (defaultRuleProcessorJSONata d)
         | postgrest \<Rightarrow> Some (ruleProcessorPostgREST u)
         | _ \<Rightarrow> None),
      quoteFieldNamesWith = ([], []),
      fieldIdentifierSeparator = [],
      validator = (\<lambda>q. Whole True),
      fieldOptions = [],
      getOperators = (\<lambda>f m. []),
      fallbackExpression = defaultFallbackExpression fmt,
      paramPrefix = '':'',
      paramsKeepPrefix = False,
      numberedParams = False,
      parseNumbers = False,
      placeholderFieldName = defaultPlaceholderFieldName,
      placeholderOperatorName = defaultPlaceholderOperatorName,
      quoteValuesWith = [CHR 0x27],
      concatOperator = ''||''\<rparr>"

text \<open>\<open>formatQuery(ruleGroup, { ... })\<close>: the options are an object.\<close>

definition configOfOptions :: "Utils \<Rightarrow> Imports \<Rightarrow> FormatQueryOptions \<Rightarrow> Config" where
  "configOfOptions u d options =
     (let owp = optionsWithPresets options;
          fmt = (case opt_format owp of Some f \<Rightarrow> f | None \<Rightarrow> json);
          rpi = opt_ruleProcessor owp
      in
      \<lparr>format = fmt,
       valueProcessorInternal = (case opt_valueProcessor owp of
            Some (Legacy vp) \<Rightarrow> (\<lambda>r opts. vp (field r) (operator r) (val r) (valueSource r))
          | Some (ByRule vp) \<Rightarrow> (\<lambda>r opts. vp r opts)
          | None \<Rightarrow>
              if fmt = natural_language then defaultValueProcessorNL d
              else if fmt = mongodb
              then asValueProcessor (orElseProcessor rpi (defaultRuleProcessorMongoDB d))
              else if fmt = cel
              then asValueProcessor (orElseProcessor rpi (defaultRuleProcessorCEL d))
              else if fmt = spel
              then asValueProcessor (orElseProcessor rpi (defaultRuleProcessorSpEL d))
              else if fmt = jsonlogic
              then asValueProcessor (orElseProcessor rpi (defaultRuleProcessorJsonLogic d))
              else if fmt = elasticsearch
              then asValueProcessor (orElseProcessor rpi (defaultRuleProcessorElasticSearch d))
              else if fmt = jsonata
              then asValueProcessor (orElseProcessor rpi (defaultRuleProcessorJSONata d))
              else if fmt = postgrest
              then asValueProcessor (orElseProcessor rpi (ruleProcessorPostgREST u))
              else defaultValueProcessorByRule d),
       ruleProcessorInternal = rpi,
       quoteFieldNamesWith = getQuoteFieldNamesWithArray (opt_quoteFieldNamesWith owp),
       fieldIdentifierSeparator =
         (case opt_fieldIdentifierSeparator owp of Some x \<Rightarrow> x | None \<Rightarrow> []),
       validator = (case opt_validator owp of Some v \<Rightarrow> v | None \<Rightarrow> (\<lambda>q. Whole True)),
       fieldOptions = toFullOptionList d (case opt_fields owp of Some fs \<Rightarrow> fs | None \<Rightarrow> []),
       getOperators =
         (\<lambda>f m. toFullOperatorList d
                  (case opt_getOperators owp of
                     None \<Rightarrow> []
                   | Some g \<Rightarrow> (case g f m of Some ops \<Rightarrow> ops | None \<Rightarrow> []))),
       fallbackExpression =
         (case opt_fallbackExpression owp of
            None \<Rightarrow> defaultFallbackExpression fmt
          | Some fb \<Rightarrow> if fb = [] then defaultFallbackExpression fmt else fb),
       paramPrefix = (case opt_paramPrefix owp of Some x \<Rightarrow> x | None \<Rightarrow> '':''),
       paramsKeepPrefix = (opt_paramsKeepPrefix owp = Some True),
       numberedParams = (opt_numberedParams owp = Some True),
       parseNumbers = (opt_parseNumbers owp = Some True),
       placeholderFieldName =
         (case opt_placeholderFieldName owp of Some x \<Rightarrow> x | None \<Rightarrow> defaultPlaceholderFieldName),
       placeholderOperatorName =
         (case opt_placeholderOperatorName owp of
            Some x \<Rightarrow> x | None \<Rightarrow> defaultPlaceholderOperatorName),
       quoteValuesWith = (case opt_quoteValuesWith owp of Some x \<Rightarrow> x | None \<Rightarrow> [CHR 0x27]),
       concatOperator = (case opt_concatOperator owp of Some x \<Rightarrow> x | None \<Rightarrow> ''||'')\<rparr>)"

definition configOf :: "Utils \<Rightarrow> Imports \<Rightarrow> FormatQueryArgument \<Rightarrow> Config" where
  "configOf u d options = (case options of
       FormatName fmt \<Rightarrow> configOfName u d fmt
     | FormatOptions opts \<Rightarrow> configOfOptions u d opts)"

subsection \<open>Validation\<close>

text \<open>
  Modelled from the spec: \<open>isRuleOrGroupValid\<close> (\<open>../isRuleOrGroupValid\<close>, not among the
  sources). "A rule is valid only if (a) no explicit invalidity is recorded for its id, and
  (b) any validator attached to its field accepts its value"; a group is invalid when
  validation invalidates it directly. A validation result is a boolean or a structured
  \<open>{valid, reasons}\<close>.
\<close>

definition validOf :: "ValidationResult \<Rightarrow> bool" where
  "validOf vr = (case vr of Plain b \<Rightarrow> b | Detailed b reasons \<Rightarrow> b)"

definition isGroupValid :: "ValidationResult option \<Rightarrow> bool" where
  "isGroupValid validationResult =
     (case validationResult of None \<Rightarrow> True | Some vr \<Rightarrow> validOf vr)"

definition isRuleValid :: "RuleType \<Rightarrow> ValidationResult option \<Rightarrow> RuleValidator option \<Rightarrow> bool" where
  "isRuleValid rule validationResult fieldValidator =
     (isGroupValid validationResult
      \<and> (case fieldValidator of None \<Rightarrow> True | Some v \<Rightarrow> validOf (v rule)))"

text \<open>\<open>validationMap[rg.id ?? '']\<close>.\<close>

definition groupValidation :: "ValidationMap \<Rightarrow> string option \<Rightarrow> ValidationResult option" where
  "groupValidation validationMap i = validationMap (case i of Some x \<Rightarrow> x | None \<Rightarrow> [])"

text \<open>\<open>validateRule\<close>: the entry of the validation map for the rule's id (when the id is
  a non-empty string) and the validator of the first field whose name is the rule's
  field.\<close>

definition validateRule ::
  "Imports \<Rightarrow> Config \<Rightarrow> ValidationMap \<Rightarrow> RuleType \<Rightarrow> ValidationResult option \<times> RuleValidator option" where
  "validateRule d c validationMap rule =
     (let validationResult =
            (case rid rule of None \<Rightarrow> None | Some i \<Rightarrow> if i = [] then None else validationMap i);
          uniqueFields = toFlatOptionArray d (fieldOptions c);
          fieldArr = filter (\<lambda>f. ff_name f = field rule) uniqueFields
      in (validationResult, (case fieldArr of [] \<Rightarrow> None | f # fs \<Rightarrow> ff_validator f)))"

text \<open>The test every region makes before it renders a rule: the rule is not valid, or its
  field is the placeholder field name, or its operator is the placeholder operator
  name.\<close>

definition ruleIsSkipped :: "Imports \<Rightarrow> Config \<Rightarrow> ValidationMap \<Rightarrow> RuleType \<Rightarrow> bool" where
  "ruleIsSkipped d c validationMap rule =
     (\<not> isRuleValid rule (fst (validateRule d c validationMap rule))
                         (snd (validateRule d c validationMap rule))
      \<or> field rule = placeholderFieldName c
      \<or> operator rule = placeholderOperatorName c)"

subsection \<open>The options of the processors\<close>

definition plainOptions :: "Imports \<Rightarrow> Config \<Rightarrow> RuleType \<Rightarrow> ValueProcessorOptions" where
  "plainOptions d c rule =
     \<lparr>vp_parseNumbers = parseNumbers c, vp_format = format c,
      vp_fieldData = getOption d (fieldOptions c) (field rule),
      vp_escapeQuotes = None, vp_quoteFieldNamesWith = None,
      vp_fieldIdentifierSeparator = None, vp_quoteValuesWith = None, vp_concatOperator = None,
      vp_fields = None, vp_getOperators = None, vp_fieldParamNames = None,
      vp_paramPrefix = None, vp_paramsKeepPrefix = None, vp_numberedParams = None,
      vp_fallbackExpression = None, vp_placeholderFieldName = None,
      vp_placeholderOperatorName = None, vp_validator = None\<rparr>"

text \<open>\<open>(rule.valueSource ?? 'value') === 'value'\<close>.\<close>

definition escapeQuotesOf :: "RuleType \<Rightarrow> bool" where
  "escapeQuotesOf rule = (case valueSource rule of None \<Rightarrow> True | Some vs \<Rightarrow> vs = ''value'')"

definition celOptions :: "Imports \<Rightarrow> Config \<Rightarrow> RuleType \<Rightarrow> ValueProcessorOptions" where
  "celOptions d c rule = (plainOptions d c rule)\<lparr>vp_escapeQuotes := Some (escapeQuotesOf rule)\<rparr>"

definition jsonataOptions :: "Imports \<Rightarrow> Config \<Rightarrow> RuleType \<Rightarrow> ValueProcessorOptions" where
  "jsonataOptions d c rule =
     (celOptions d c rule)\<lparr>vp_quoteFieldNamesWith := Some (quoteFieldNamesWith c),
                            vp_fieldIdentifierSeparator := Some (fieldIdentifierSeparator c)\<rparr>"

definition sqlOptions :: "Imports \<Rightarrow> Config \<Rightarrow> RuleType \<Rightarrow> ValueProcessorOptions" where
  "sqlOptions d c rule =
     (jsonataOptions d c rule)\<lparr>vp_quoteValuesWith := Some (quoteValuesWith c),
                                vp_concatOperator := Some (concatOperator c)\<rparr>"

definition nlOptions :: "Imports \<Rightarrow> Config \<Rightarrow> RuleType \<Rightarrow> ValueProcessorOptions" where
  "nlOptions d c rule =
     (sqlOptions d c rule)\<lparr>vp_fields := Some (fieldOptions c),
                            vp_getOperators := Some (getOperators c)\<rparr>"

definition parameterizedOptions ::
  "Imports \<Rightarrow> Config \<Rightarrow> (string \<times> string list) list \<Rightarrow> RuleType \<Rightarrow> ValueProcessorOptions" where
  "parameterizedOptions d c fieldParamNames rule =
     (plainOptions d c rule)
       \<lparr>vp_quoteFieldNamesWith := Some (quoteFieldNamesWith c),
        vp_fieldIdentifierSeparator := Some (fieldIdentifierSeparator c),
        vp_concatOperator := Some (concatOperator c),
        vp_fields := Some (fieldOptions c),
        vp_fieldParamNames := Some fieldParamNames,
        vp_paramPrefix := Some (paramPrefix c),
        vp_paramsKeepPrefix := Some (paramsKeepPrefix c),
        vp_numberedParams := Some (numberedParams c),
        vp_fallbackExpression := Some (fallbackExpression c),
        vp_placeholderFieldName := Some (placeholderFieldName c),
        vp_placeholderOperatorName := Some (placeholderOperatorName c),
        vp_validator := Some (validator c)\<rparr>"

text \<open>\<open>(ruleProcessorInternal ?? valueProcessorInternal)(rule, options)\<close>.\<close>

definition processWith :: "Config \<Rightarrow> RuleType \<Rightarrow> ValueProcessorOptions \<Rightarrow> jsval" where
  "processWith c rule opts = (case ruleProcessorInternal c of
       Some rp \<Rightarrow> fst (rp rule opts None None)
     | None \<Rightarrow> valueProcessorInternal c rule opts)"

text \<open>\<open>xs.filter(Boolean).join(sep)\<close>.\<close>

definition joinTruthy :: "Utils \<Rightarrow> string \<Rightarrow> jsval list \<Rightarrow> string" where
  "joinTruthy u sep xs = joinStrings sep (toStrElems (numberToString u) (filter truthy xs))"

text \<open>\<open>isRuleGroupType(rg) ? ` ${rg.combinator} ` : ' '\<close>.\<close>

definition separatorOf :: "string option \<Rightarrow> string" where
  "separatorOf comb = (case comb of Some c \<Rightarrow> '' '' @ c @ '' '' | None \<Rightarrow> '' '')"

subsection \<open>The region "SQL"\<close>

definition processRuleSQL :: "Imports \<Rightarrow> Config \<Rightarrow> ValidationMap \<Rightarrow> RuleType \<Rightarrow> jsval" where
  "processRuleSQL d c validationMap rule =
     (if ruleIsSkipped d c validationMap rule then JStr []
      else (case ruleProcessorInternal c of
              Some rp \<Rightarrow> fst (rp rule (sqlOptions d c rule) None None)
            | None \<Rightarrow> fst (defaultRuleProcessorSQL d rule (sqlOptions d c rule)
                              (Some (valueProcessorInternal c)) None)))"

fun processRuleGroupSQL ::
    "Utils \<Rightarrow> Imports \<Rightarrow> Config \<Rightarrow> ValidationMap \<Rightarrow> AnyGroup \<Rightarrow> bool \<Rightarrow> string"
  and processItemSQL ::
    "Utils \<Rightarrow> Imports \<Rightarrow> Config \<Rightarrow> ValidationMap \<Rightarrow> bool \<Rightarrow> AnyItem \<Rightarrow> jsval" where
  "processRuleGroupSQL u d c validationMap (AnyGroup i comb n rs) outermostOrLonelyInGroup =
     (if \<not> isGroupValid (groupValidation validationMap i)
      then (if outermostOrLonelyInGroup then fallbackExpression c else [])
      else
        (let processedRules = map (processItemSQL u d c validationMap (length rs = 1)) rs
         in if length processedRules = 0 then fallbackExpression c
            else (if n = Some True then ''NOT '' else []) @ ''(''
                 @ joinTruthy u (separatorOf comb) processedRules @ '')''))"
| "processItemSQL u d c validationMap lonely (AnyCombinator s) = JStr s"
| "processItemSQL u d c validationMap lonely (AnyGroupItem g) =
     JStr (processRuleGroupSQL u d c validationMap g lonely)"
| "processItemSQL u d c validationMap lonely (AnyRule rule) = processRuleSQL d c validationMap rule"

subsection \<open>The region "Parameterized SQL"\<close>

text \<open>The traversal's accumulators: the positional parameters, the named parameters, and
  \<open>fieldParams\<close>, the parameter names handed out per field (a \<open>Map\<close> of \<open>Set\<close>s, both
  in insertion order).\<close>

record ParamState =
  params :: "jsval list"
  paramsNamed :: "(string \<times> jsval) list"
  fieldParams :: "(string \<times> string list) list"

text \<open>\<open>Set.prototype.add\<close> and the update of one key of a map or object that keeps its
  place.\<close>

definition setAdd :: "'a list \<Rightarrow> 'a \<Rightarrow> 'a list" where
  "setAdd xs x = (if x \<in> set xs then xs else xs @ [x])"

fun assignKey :: "('k \<times> 'v) list \<Rightarrow> 'k \<Rightarrow> 'v \<Rightarrow> ('k \<times> 'v) list" where
  "assignKey [] k v = [(k, v)]"
| "assignKey (kv # kvs) k v = (if fst kv = k then (k, v) # kvs else kv # assignKey kvs k v)"

definition getNextNamedParam ::
  "Utils \<Rightarrow> (string \<times> string list) list \<Rightarrow> string \<Rightarrow> (string \<times> string list) list" where
  "getNextNamedParam u fp f =
     (let names = (case map_of fp f of Some ns \<Rightarrow> ns | None \<Rightarrow> []);
          nextNamedParam = f @ ''_'' @ numberToString u (of_nat (length names + 1))
      in assignKey fp f (setAdd names nextNamedParam))"

definition processRuleParameterized ::
  "Utils \<Rightarrow> Imports \<Rightarrow> Config \<Rightarrow> ValidationMap \<Rightarrow> ParamState \<Rightarrow> RuleType \<Rightarrow> string \<times> ParamState" where
  "processRuleParameterized u d c validationMap st rule =
     (if ruleIsSkipped d c validationMap rule then ([], st)
      else
        (let called = orElseProcessor (ruleProcessorInternal c) (defaultRuleProcessorParameterized d)
                        rule (parameterizedOptions d c (fieldParams st) rule)
                        (Some (valueProcessorInternal c)) (Some (params st));
             processedRule = fst called;
             st1 = st\<lparr>fieldParams := foldl (getNextNamedParam u) (fieldParams st) (snd called)\<rparr>;
             sqlPart = propOf processedRule ''sql'';
             customParams = propOf processedRule ''params''
         in if \<not> isPojo processedRule then ([], st1)
            else (case sqlPart of
                JStr text \<Rightarrow>
                  if text = [] then ([], st1)
                  else if format c = parameterized \<and> isArray customParams
                  then (text, st1\<lparr>params := params st1
                                     @ (case customParams of JArr ps \<Rightarrow> ps | _ \<Rightarrow> [])\<rparr>)
                  else if format c = parameterized_named \<and> isPojo customParams
                  then
                    (let kvs = (case customParams of JObj kvs \<Rightarrow> kvs | _ \<Rightarrow> [])
                     in (text,
                         st1\<lparr>paramsNamed := foldl (\<lambda>m kv. assignKey m (fst kv) (snd kv))
                                                  (paramsNamed st1) kvs,
                             fieldParams :=
                               (case map_of (fieldParams st1) (field rule) of
                                  None \<Rightarrow> fieldParams st1
                                | Some ns \<Rightarrow> assignKey (fieldParams st1) (field rule)
                                               (foldl setAdd ns (map fst kvs)))\<rparr>))
                  else (text, st1)
              | _ \<Rightarrow> ([], st1))))"

fun processRuleGroupParameterized ::
    "Utils \<Rightarrow> Imports \<Rightarrow> Config \<Rightarrow> ValidationMap \<Rightarrow> ParamState \<Rightarrow> AnyGroup \<Rightarrow> bool
       \<Rightarrow> string \<times> ParamState"
  and processItemsParameterized ::
    "Utils \<Rightarrow> Imports \<Rightarrow> Config \<Rightarrow> ValidationMap \<Rightarrow> bool \<Rightarrow> ParamState \<Rightarrow> AnyItem list
       \<Rightarrow> string list \<times> ParamState" where
  "processRuleGroupParameterized u d c validationMap st (AnyGroup i comb n rs)
       outermostOrLonelyInGroup =
     (if \<not> isGroupValid (groupValidation validationMap i)
      then ((if outermostOrLonelyInGroup then fallbackExpression c else []), st)
      else
        (let processed = processItemsParameterized u d c validationMap (length rs = 1) st rs;
             processedRules = fst processed
         in if length processedRules = 0 then (fallbackExpression c, snd processed)
            else ((if n = Some True then ''NOT '' else []) @ ''(''
                  @ joinStrings (separatorOf comb) (filter (\<lambda>x. x \<noteq> []) processedRules) @ '')'',
                  snd processed)))"
| "processItemsParameterized u d c validationMap lonely st [] = ([], st)"
| "processItemsParameterized u d c validationMap lonely st (AnyCombinator s # rest) =
     (let more = processItemsParameterized u d c validationMap lonely st rest
      in (s # fst more, snd more))"
| "processItemsParameterized u d c validationMap lonely st (AnyGroupItem g # rest) =
     (let one = processRuleGroupParameterized u d c validationMap st g lonely;
          more = processItemsParameterized u d c validationMap lonely (snd one) rest
      in (fst one # fst more, snd more))"
| "processItemsParameterized u d c validationMap lonely st (AnyRule rule # rest) =
     (let one = processRuleParameterized u d c validationMap st rule;
          more = processItemsParameterized u d c validationMap lonely (snd one) rest
      in (fst one # fst more, snd more))"

definition emptyParamState :: ParamState where
  "emptyParamState = \<lparr>params = [], paramsNamed = [], fieldParams = []\<rparr>"

subsection \<open>The region "MongoDB"\<close>

text \<open>\<open>/^{.+}$/.test(s)\<close>: an opening brace, at least one character none of which ends a
  line, and a closing brace.\<close>

definition bracesAround :: "string \<Rightarrow> bool" where
  "bracesAround s =
     (3 \<le> length s \<and> hd s = CHR ''{'' \<and> last s = CHR ''}''
      \<and> list_all (\<lambda>ch. ch \<noteq> CHR 0x0A \<and> ch \<noteq> CHR 0x0D) (butlast (tl s)))"

fun processRuleGroupMongoDB ::
    "Utils \<Rightarrow> Imports \<Rightarrow> Config \<Rightarrow> ValidationMap \<Rightarrow> RuleGroupType \<Rightarrow> bool \<Rightarrow> jsval"
  and processItemMongoDB ::
    "Utils \<Rightarrow> Imports \<Rightarrow> Config \<Rightarrow> ValidationMap \<Rightarrow> RuleOrGroup \<Rightarrow> jsval \<times> bool" where
  "processRuleGroupMongoDB u d c validationMap (RuleGroup i comb n rs) outermost =
     (if \<not> isGroupValid (groupValidation validationMap i)
      then JStr (if outermost then fallbackExpression c else [])
      else
        (let combinatorKey = doubleQuote @ ''$'' @ lowerCase comb @ doubleQuote;
             processed = map (processItemMongoDB u d c validationMap) rs;
             hasChildRules = list_ex snd processed;
             expressions = filter truthy (map fst processed)
         in if 0 < length expressions
            then (if length expressions = 1 \<and> \<not> hasChildRules then hd expressions
                  else JStr (combinatorKey @ '':[''
                             @ joinStrings '','' (toStrElems (numberToString u) expressions)
                             @ '']''))
            else JStr (fallbackExpression c)))"
| "processItemMongoDB u d c validationMap (GroupItem g) =
     (let processedRuleGroup = processRuleGroupMongoDB u d c validationMap g False
      in if truthy processedRuleGroup
         then ((if bracesAround (toStr (numberToString u) processedRuleGroup)
                then processedRuleGroup
                else JStr (''{'' @ toStr (numberToString u) processedRuleGroup @ ''}'')), True)
         else (JStr [], False))"
| "processItemMongoDB u d c validationMap (RuleItem rule) =
     ((if ruleIsSkipped d c validationMap rule then JStr []
       else processWith c rule (plainOptions d c rule)), False)"

subsection \<open>The regions "CEL", "SpEL" and "JSONata"\<close>

fun processRuleGroupCEL ::
    "Utils \<Rightarrow> Imports \<Rightarrow> Config \<Rightarrow> ValidationMap \<Rightarrow> AnyGroup \<Rightarrow> bool \<Rightarrow> string"
  and processItemCEL ::
    "Utils \<Rightarrow> Imports \<Rightarrow> Config \<Rightarrow> ValidationMap \<Rightarrow> AnyItem \<Rightarrow> jsval" where
  "processRuleGroupCEL u d c validationMap (AnyGroup i comb n rs) outermost =
     (if \<not> isGroupValid (groupValidation validationMap i)
      then (if outermost then fallbackExpression c else [])
      else
        (let expression =
               joinTruthy u
                 (case comb of
                    Some cb \<Rightarrow> '' '' @ toStr (numberToString u) (celCombinatorMap d cb) @ '' ''
                  | None \<Rightarrow> '' '')
                 (map (processItemCEL u d c validationMap) rs);
             wrap = (n = Some True \<or> \<not> outermost);
             prefix = (if wrap then (if n = Some True then ''!'' else []) @ ''('' else []);
             suffix = (if wrap then '')'' else [])
         in if expression \<noteq> [] then prefix @ expression @ suffix else fallbackExpression c))"
| "processItemCEL u d c validationMap (AnyCombinator s) = celCombinatorMap d s"
| "processItemCEL u d c validationMap (AnyGroupItem g) =
     JStr (processRuleGroupCEL u d c validationMap g False)"
| "processItemCEL u d c validationMap (AnyRule rule) =
     (if ruleIsSkipped d c validationMap rule then JStr []
      else processWith c rule (celOptions d c rule))"

fun processRuleGroupSpEL ::
    "Utils \<Rightarrow> Imports \<Rightarrow> Config \<Rightarrow> ValidationMap \<Rightarrow> AnyGroup \<Rightarrow> bool \<Rightarrow> string"
  and processItemSpEL ::
    "Utils \<Rightarrow> Imports \<Rightarrow> Config \<Rightarrow> ValidationMap \<Rightarrow> AnyItem \<Rightarrow> jsval" where
  "processRuleGroupSpEL u d c validationMap (AnyGroup i comb n rs) outermost =
     (if \<not> isGroupValid (groupValidation validationMap i)
      then (if outermost then fallbackExpression c else [])
      else
        (let expression =
               joinTruthy u (separatorOf comb) (map (processItemSpEL u d c validationMap) rs);
             wrap = (n = Some True \<or> \<not> outermost);
             prefix = (if wrap then (if n = Some True then ''!'' else []) @ ''('' else []);
             suffix = (if wrap then '')'' else [])
         in if expression \<noteq> [] then prefix @ expression @ suffix else fallbackExpression c))"
| "processItemSpEL u d c validationMap (AnyCombinator s) = JStr s"
| "processItemSpEL u d c validationMap (AnyGroupItem g) =
     JStr (processRuleGroupSpEL u d c validationMap g False)"
| "processItemSpEL u d c validationMap (AnyRule rule) =
     (if ruleIsSkipped d c validationMap rule then JStr []
      else processWith c rule (celOptions d c rule))"

fun processRuleGroupJSONata ::
    "Utils \<Rightarrow> Imports \<Rightarrow> Config \<Rightarrow> ValidationMap \<Rightarrow> AnyGroup \<Rightarrow> bool \<Rightarrow> string"
  and processItemJSONata ::
    "Utils \<Rightarrow> Imports \<Rightarrow> Config \<Rightarrow> ValidationMap \<Rightarrow> AnyItem \<Rightarrow> jsval" where
  "processRuleGroupJSONata u d c validationMap (AnyGroup i comb n rs) outermost =
     (if \<not> isGroupValid (groupValidation validationMap i)
      then (if outermost then fallbackExpression c else [])
      else
        (let expression =
               joinTruthy u (separatorOf comb) (map (processItemJSONata u d c validationMap) rs);
             wrap = (n = Some True \<or> \<not> outermost);
             prefix = (if wrap then (if n = Some True then ''$not'' else []) @ ''('' else []);
             suffix = (if wrap then '')'' else [])
         in if expression \<noteq> [] then prefix @ expression @ suffix else fallbackExpression c))"
| "processItemJSONata u d c validationMap (AnyCombinator s) = JStr s"
| "processItemJSONata u d c validationMap (AnyGroupItem g) =
     JStr (processRuleGroupJSONata u d c validationMap g False)"
| "processItemJSONata u d c validationMap (AnyRule rule) =
     (if ruleIsSkipped d c validationMap rule then JStr []
      else processWith c rule (jsonataOptions d c rule))"

subsection \<open>The regions "JsonLogic", "ElasticSearch" and "PostgREST"\<close>

fun processRuleGroupJsonLogic ::
    "Imports \<Rightarrow> Config \<Rightarrow> ValidationMap \<Rightarrow> RuleGroupType \<Rightarrow> jsval"
  and processItemJsonLogic ::
    "Imports \<Rightarrow> Config \<Rightarrow> ValidationMap \<Rightarrow> RuleOrGroup \<Rightarrow> jsval" where
  "processRuleGroupJsonLogic d c validationMap (RuleGroup i comb n rs) =
     (if \<not> isGroupValid (groupValidation validationMap i) then JBool False
      else
        (let processedRules = filter truthy (map (processItemJsonLogic d c validationMap) rs)
         in if length processedRules = 0 then JBool False
            else (let jsonRuleGroup = JObj [(comb, JArr processedRules)]
                  in if n = Some True then JObj [(''!'', jsonRuleGroup)] else jsonRuleGroup)))"
| "processItemJsonLogic d c validationMap (GroupItem g) =
     processRuleGroupJsonLogic d c validationMap g"
| "processItemJsonLogic d c validationMap (RuleItem rule) =
     (if ruleIsSkipped d c validationMap rule then JBool False
      else processWith c rule (plainOptions d c rule))"

fun processRuleGroupElasticSearch ::
    "Imports \<Rightarrow> Config \<Rightarrow> ValidationMap \<Rightarrow> RuleGroupType \<Rightarrow> jsval"
  and processItemElasticSearch ::
    "Imports \<Rightarrow> Config \<Rightarrow> ValidationMap \<Rightarrow> RuleOrGroup \<Rightarrow> jsval" where
  "processRuleGroupElasticSearch d c validationMap (RuleGroup i comb n rs) =
     (if \<not> isGroupValid (groupValidation validationMap i) then JBool False
      else
        (let processedRules = filter truthy (map (processItemElasticSearch d c validationMap) rs)
         in if length processedRules = 0 then JBool False
            else JObj [(''bool'',
                   (if n = Some True
                    then JObj [(''must_not'',
                           (if comb = ''or''
                            then JObj [(''bool'', JObj [(''should'', JArr processedRules)])]
                            else JArr processedRules))]
                    else JObj [((if comb = ''or'' then ''should'' else ''must''),
                                JArr processedRules)]))]))"
| "processItemElasticSearch d c validationMap (GroupItem g) =
     processRuleGroupElasticSearch d c validationMap g"
| "processItemElasticSearch d c validationMap (RuleItem rule) =
     (if ruleIsSkipped d c validationMap rule then JBool False
      else processWith c rule (plainOptions d c rule))"

fun processRuleGroupPostgREST ::
    "Imports \<Rightarrow> Config \<Rightarrow> ValidationMap \<Rightarrow> RuleGroupType \<Rightarrow> jsval"
  and processItemPostgREST ::
    "Imports \<Rightarrow> Config \<Rightarrow> ValidationMap \<Rightarrow> RuleOrGroup \<Rightarrow> jsval" where
  "processRuleGroupPostgREST d c validationMap (RuleGroup i comb n rs) =
     (if \<not> isGroupValid (groupValidation validationMap i) then JBool False
      else
        (let processedRules = filter truthy (map (processItemPostgREST d c validationMap) rs)
         in if length processedRules = 0 then JBool False
            else (let jsonRuleGroup = JObj [(comb, JArr processedRules)]
                  in if n = Some True then JObj [(''!'', jsonRuleGroup)] else jsonRuleGroup)))"
| "processItemPostgREST d c validationMap (GroupItem g) =
     processRuleGroupPostgREST d c validationMap g"
| "processItemPostgREST d c validationMap (RuleItem rule) =
     (if ruleIsSkipped d c validationMap rule then JBool False
      else processWith c rule (plainOptions d c rule))"

subsection \<open>The region "Natural language"\<close>

definition processRuleNL :: "Imports \<Rightarrow> Config \<Rightarrow> ValidationMap \<Rightarrow> RuleType \<Rightarrow> jsval" where
  "processRuleNL d c validationMap rule =
     (if ruleIsSkipped d c validationMap rule then JStr []
      else (case ruleProcessorInternal c of
              Some rp \<Rightarrow> fst (rp rule (nlOptions d c rule) None None)
            | None \<Rightarrow> fst (defaultRuleProcessorNL d rule (nlOptions d c rule)
                              (Some (valueProcessorInternal c)) None)))"

fun processRuleGroupNL ::
    "Utils \<Rightarrow> Imports \<Rightarrow> Config \<Rightarrow> ValidationMap \<Rightarrow> AnyGroup \<Rightarrow> bool \<Rightarrow> string"
  and processItemNL ::
    "Utils \<Rightarrow> Imports \<Rightarrow> Config \<Rightarrow> ValidationMap \<Rightarrow> bool \<Rightarrow> AnyItem \<Rightarrow> jsval" where
  "processRuleGroupNL u d c validationMap (AnyGroup i comb n rs) outermostOrLonelyInGroup =
     (if \<not> isGroupValid (groupValidation validationMap i)
      then (if outermostOrLonelyInGroup then fallbackExpression c else [])
      else
        (let processedRules = map (processItemNL u d c validationMap (length rs = 1)) rs;
             wrap = (n = Some True \<or> \<not> outermostOrLonelyInGroup);
             prefix = (if wrap then ''('' else []);
             suffix = (if wrap then '') is'' @ (if n = Some True then '' not'' else []) @ '' true''
                       else [])
         in if length processedRules = 0 then fallbackExpression c
            else prefix
                 @ joinTruthy u (case comb of Some cb \<Rightarrow> '', '' @ cb @ '' '' | None \<Rightarrow> [])
                     processedRules
                 @ suffix))"
| "processItemNL u d c validationMap lonely (AnyCombinator s) = JStr ('', '' @ s @ '' '')"
| "processItemNL u d c validationMap lonely (AnyGroupItem g) =
     JStr (processRuleGroupNL u d c validationMap g lonely)"
| "processItemNL u d c validationMap lonely (AnyRule rule) = processRuleNL d c validationMap rule"

subsection \<open>formatQuery\<close>

text \<open>
  The result of \<open>formatQuery\<close>: a JavaScript value (a string, an object, \<open>false\<close>), or,
  for the two JSON formats, the text that \<open>JSON.stringify\<close> makes of the tree:
  \<open>JSONText False rg\<close> stands for \<open>JSON.stringify(rg, null, 2)\<close> and \<open>JSONText True rg\<close>
  for \<open>JSON.stringify(rg, replacer)\<close> with the replacer that removes the keys \<open>id\<close> and
  \<open>path\<close>. The text itself is the host's and is not modelled.
\<close>

datatype FormatQueryResult = Result jsval | JSONText bool RuleGroupTypeAny

text \<open>\<open>isRuleGroupType(ruleGroup) ? ruleGroup : convertFromIC(ruleGroup)\<close>.\<close>

definition standardOf :: "Imports \<Rightarrow> RuleGroupTypeAny \<Rightarrow> RuleGroupType" where
  "standardOf d ruleGroup = (case ruleGroup of
       Standard g \<Rightarrow> g
     | IndependentCombinators g \<Rightarrow> convertFromIC d g)"

text \<open>What \<open>formatQuery\<close> returns when the validator has returned \<open>false\<close>.\<close>

definition invalidQueryResult :: "Config \<Rightarrow> jsval" where
  "invalidQueryResult c =
     (if format c = parameterized
      then JObj [(''sql'', JStr (fallbackExpression c)), (''params'', JArr [])]
      else if format c = parameterized_named
      then JObj [(''sql'', JStr (fallbackExpression c)), (''params'', JObj [])]
      else if format c = mongodb then JStr (''{'' @ fallbackExpression c @ ''}'')
      else if format c = jsonlogic then JBool False
      else if format c = elasticsearch then JObj []
      else JStr (fallbackExpression c))"

text \<open>The regions after "Validation", entered with the validation map.\<close>

definition formatValidated ::
  "Utils \<Rightarrow> Imports \<Rightarrow> Config \<Rightarrow> ValidationMap \<Rightarrow> RuleGroupTypeAny \<Rightarrow> jsval" where
  "formatValidated u d c validationMap ruleGroup =
     (if format c = sql
      then JStr (processRuleGroupSQL u d c validationMap (anyOf ruleGroup) True)
      else if format c = parameterized \<or> format c = parameterized_named
      then
        (let done = processRuleGroupParameterized u d c validationMap emptyParamState
                      (anyOf ruleGroup) True
         in if format c = parameterized
            then JObj [(''sql'', JStr (fst done)), (''params'', JArr (params (snd done)))]
            else JObj [(''sql'', JStr (fst done)), (''params'', JObj (paramsNamed (snd done)))])
      else if format c = mongodb
      then
        (let processedQuery = processRuleGroupMongoDB u d c validationMap (standardOf d ruleGroup) True
         in if bracesAround (toStr (numberToString u) processedQuery) then processedQuery
            else JStr (''{'' @ toStr (numberToString u) processedQuery @ ''}''))
      else if format c = cel
      then JStr (processRuleGroupCEL u d c validationMap (anyOf ruleGroup) True)
      else if format c = spel
      then JStr (processRuleGroupSpEL u d c validationMap (anyOf ruleGroup) True)
      else if format c = jsonata
      then JStr (processRuleGroupJSONata u d c validationMap (anyOf ruleGroup) True)
      else if format c = jsonlogic
      then processRuleGroupJsonLogic d c validationMap (standardOf d ruleGroup)
      else if format c = elasticsearch
      then
        (let processedRuleGroup = processRuleGroupElasticSearch d c validationMap (standardOf d ruleGroup)
         in if processedRuleGroup = JBool False then JObj [] else processedRuleGroup)
      else if format c = natural_language
      then JStr (processRuleGroupNL u d c validationMap (anyOf ruleGroup) True)
      else if format c = postgrest
      then processRuleGroupPostgREST d c validationMap (standardOf d ruleGroup)
      else JStr [])"

definition formatQuery ::
  "Utils \<Rightarrow> Imports \<Rightarrow> RuleGroupTypeAny \<Rightarrow> FormatQueryArgument \<Rightarrow> FormatQueryResult" where
  "formatQuery u d ruleGroup options =
     (let c = configOf u d options in
      if format c = json \<or> format c = json_without_ids
      then
        (let rg = (if parseNumbers c then numerifyValues d ruleGroup else ruleGroup)
         in if format c = json_without_ids then JSONText True rg else JSONText False rg)
      else
        (case validator c ruleGroup of
           Whole validationResult \<Rightarrow>
             if validationResult = False then Result (invalidQueryResult c)
             else Result (formatValidated u d c (\<lambda>i. None) ruleGroup)
         | PerNode validationMap \<Rightarrow> Result (formatValidated u d c validationMap ruleGroup)))"

section \<open>An instance of the helpers for the examples\<close>

text \<open>
  The theorems below hold for every value of the helper record. Closed examples need one
  value. \<open>exampleUtils\<close> follows what the spec says of the helpers: lists are
  "comma-joined strings", a string such as \<open>Vai, Vaughan\<close> splits at the commas into
  \<open>Vai\<close> and \<open>Vaughan\<close>, and a value "recognized by a numeric-literal pattern" is
  coerced to a number. Of the numeric literals it recognises the unsigned decimal integers,
  which is all the examples use; it prints integers in decimal; its \<open>JSON_parse\<close> rejects
  every text (the examples pass objects; the one text they pass is malformed); its
  \<open>convertToIC\<close> puts the combinator between the elements, and is not used.
\<close>

fun splitOn :: "char \<Rightarrow> string \<Rightarrow> string list" where
  "splitOn c [] = [[]]"
| "splitOn c (x # xs) =
     (if x = c then [] # splitOn c xs
      else (case splitOn c xs of [] \<Rightarrow> [[x]] | y # ys \<Rightarrow> (x # y) # ys))"

definition trim :: "string \<Rightarrow> string" where
  "trim s = rev (dropWhile (\<lambda>c. c = CHR '' '') (rev (dropWhile (\<lambda>c. c = CHR '' '') s)))"

definition exampleToArray :: "jsval \<Rightarrow> jsval list" where
  "exampleToArray v = (case v of
       JArr xs \<Rightarrow> xs
     | JStr s \<Rightarrow> map JStr (filter (\<lambda>p. p \<noteq> []) (map trim (splitOn (CHR '','') s)))
     | JNum n \<Rightarrow> [JNum n]
     | _ \<Rightarrow> [])"

definition digitValue :: "char \<Rightarrow> nat option" where
  "digitValue c = map_of (zip ''0123456789'' [0, 1, 2, 3, 4, 5, 6, 7, 8, 9]) c"

definition isDigits :: "string \<Rightarrow> bool" where
  "isDigits s = (s \<noteq> [] \<and> list_all (\<lambda>c. digitValue c \<noteq> None) s)"

definition digitsValue :: "string \<Rightarrow> nat" where
  "digitsValue s = foldl (\<lambda>n c. 10 * n + (case digitValue c of Some d \<Rightarrow> d | None \<Rightarrow> 0)) 0 s"

fun showDigits :: "nat \<Rightarrow> nat \<Rightarrow> string" where
  "showDigits 0 n = []"
| "showDigits (Suc fuel) n =
     (if n < 10 then [''0123456789'' ! n]
      else showDigits fuel (n div 10) @ [''0123456789'' ! (n mod 10)])"

definition exampleNumberToString :: "rat \<Rightarrow> string" where
  "exampleNumberToString r =
     (let n = fst (quotient_of r); d = snd (quotient_of r);
          shown = (\<lambda>i. (if i < 0 then ''-'' else []) @ showDigits (Suc (nat \<bar>i\<bar>)) (nat \<bar>i\<bar>))
      in if d = 1 then shown n else shown n @ ''/'' @ shown d)"

fun exampleConvertToIC :: "RuleGroupType \<Rightarrow> RuleGroupTypeIC"
  and exampleInterleave :: "string \<Rightarrow> RuleOrGroup list \<Rightarrow> RuleOrGroupIC list" where
  "exampleConvertToIC (RuleGroup i c n rs) = RuleGroupIC i n (exampleInterleave c rs)"
| "exampleInterleave c [] = []"
| "exampleInterleave c (RuleItem r # rs) =
     RuleIC r # (if rs = [] then [] else CombinatorIC c # exampleInterleave c rs)"
| "exampleInterleave c (GroupItem g # rs) =
     GroupIC (exampleConvertToIC g) # (if rs = [] then [] else CombinatorIC c # exampleInterleave c rs)"

definition exampleUtils :: Utils where
  "exampleUtils =
     \<lparr>toArray = exampleToArray,
      joinWith = (\<lambda>xs sep. joinStrings sep xs),
      isValidValue = (\<lambda>v. v \<noteq> JStr []),
      shouldRenderAsNumber =
        (\<lambda>v pn. pn = Some True \<and> (case v of JNum n \<Rightarrow> True | JStr s \<Rightarrow> isDigits s | _ \<Rightarrow> False)),
      parseNumber =
        (\<lambda>v pn. if pn = Some True
                 then (case v of JStr s \<Rightarrow> if isDigits s then JNum (of_nat (digitsValue s)) else v
                       | _ \<Rightarrow> v)
                 else v),
      numberToString = exampleNumberToString,
      toNumber = (\<lambda>v. case v of JNum n \<Rightarrow> Some n | _ \<Rightarrow> None),
      JSON_parse = (\<lambda>s. None),
      convertToIC = (\<lambda>q. case q of GroupItem g \<Rightarrow> exampleConvertToIC g
                             | RuleItem r \<Rightarrow> RuleGroupIC None None [RuleIC r])\<rparr>"

text \<open>An instance of the imports of \<open>formatQuery\<close>: every default processor of another
  format renders a rule as its field, its operator and a question mark (or the like as an
  object); the option list utilities are the identity on a flat list; \<open>celCombinatorMap\<close>
  maps \<open>and\<close> and \<open>or\<close> to \<open>&&\<close> and \<open>||\<close>; \<open>convertFromIC\<close> is not used.\<close>

definition exampleProcessor :: RuleProcessor where
  "exampleProcessor = (\<lambda>r opts vp meta. (JStr (field r @ '' '' @ operator r @ '' ?''), []))"

definition exampleImports :: Imports where
  "exampleImports =
     \<lparr>defaultValueProcessorByRule = (\<lambda>r opts. JStr ''?''),
      defaultValueProcessorNL = (\<lambda>r opts. JStr ''?''),
      defaultRuleProcessorSQL = exampleProcessor,
      defaultRuleProcessorParameterized =
        (\<lambda>r opts vp meta. (JObj [(''sql'', JStr (field r @ '' '' @ operator r @ '' ?'')),
                                   (''params'', JArr [val r])], [])),
      defaultRuleProcessorNL = exampleProcessor,
      defaultRuleProcessorMongoDB = exampleProcessor,
      defaultRuleProcessorCEL = exampleProcessor,
      defaultRuleProcessorSpEL = exampleProcessor,
      defaultRuleProcessorJsonLogic =
        (\<lambda>r opts vp meta. (JObj [(operator r, JArr [JObj [(''var'', JStr (field r))], val r])], [])),
      defaultRuleProcessorElasticSearch =
        (\<lambda>r opts vp meta. (JObj [(''term'', JObj [(field r, val r)])], [])),
      defaultRuleProcessorJSONata = exampleProcessor,
      toFullOptionList = (\<lambda>fs. fs),
      toFlatOptionArray = (\<lambda>fs. fs),
      getOption = (\<lambda>fs n. List.find (\<lambda>f. ff_name f = n) fs),
      toFullOperatorList = (\<lambda>ops. ops),
      convertFromIC = (\<lambda>g. RuleGroup (icid g) ''and'' (icnot g) []),
      celCombinatorMap = (\<lambda>s. if s = ''and'' then JStr ''&&'' else if s = ''or'' then JStr ''||''
                               else JUndefined),
      numerifyValues = (\<lambda>q. q)\<rparr>"

definition exampleRule :: "string \<Rightarrow> string \<Rightarrow> jsval \<Rightarrow> RuleType" where
  "exampleRule f op v =
     \<lparr>rid = None, field = f, operator = op, val = v, valueSource = None, rule_not = None\<rparr>"

definition rejectAll :: FormatQueryOptions where
  "rejectAll = emptyOptions\<lparr>opt_validator := Some (\<lambda>q. Whole False)\<rparr>"

section \<open>Replacing the placeholder rules of a tree\<close>








section \<open>Removing the placeholder rules of a tree\<close>







section \<open>Queries that formatting as PostgREST and parsing give back\<close>

text \<open>The object \<open>{"!": {"in": [{"var": "a"}, [1, 2]]}}\<close>.\<close>

definition notInExample :: jsval where
  "notInExample = JObj [(''!'', JObj [(''in'', JArr [JObj [(''var'', JStr ''a'')], JArr [JNum 1, JNum 2]])])]"

text \<open>A query without the \<open>id\<close>s of its groups and rules (the model has no \<open>path\<close>).\<close>

fun withoutIds :: "RuleGroupType \<Rightarrow> RuleGroupType"
  and withoutIdsItem :: "RuleOrGroup \<Rightarrow> RuleOrGroup" where
  "withoutIds (RuleGroup i comb n rs) = RuleGroup None comb n (map withoutIdsItem rs)"
| "withoutIdsItem (RuleItem r) = RuleItem (r\<lparr>rid := None\<rparr>)"
| "withoutIdsItem (GroupItem g) = GroupItem (withoutIds g)"

text \<open>A value that \<open>fieldOrNumberRenderer\<close> hands on as it is and that the parser takes for
  a value: not a plain object, and not rendered as a number.\<close>

definition plainValue :: "Utils \<Rightarrow> jsval \<Rightarrow> bool" where
  "plainValue u v = (\<not> isPojo v \<and> \<not> shouldRenderAsNumber u v (Some False))"

text \<open>The condition under which the parser keeps a list of literals: all strings, all
  numbers or all booleans.\<close>

definition sameType :: "jsval list \<Rightarrow> bool" where
  "sameType xs = (xs \<noteq> [] \<and> (list_all isString xs \<or> list_all isNumber xs \<or> list_all isBoolean xs))"

text \<open>The value the parser builds from a list without \<open>listsAsArrays\<close>.\<close>

definition joined :: "Utils \<Rightarrow> jsval list \<Rightarrow> jsval" where
  "joined u xs = JStr (joinWith u (map (toStr (numberToString u)) xs) '','')"

text \<open>A rule of a comparison operator as the parser builds it: a plain value and no
  \<open>valueSource\<close>, or the name of a field and \<open>valueSource: 'field'\<close>.\<close>

definition comparisonOk :: "Utils \<Rightarrow> RuleType \<Rightarrow> bool" where
  "comparisonOk u r =
     (valueSource r = None \<and> plainValue u (val r) \<or> valueSource r = Some ''field'' \<and> isString (val r))"

text \<open>A rule of \<open>in\<close> as the parser builds it: the value is the joined list of its own
  elements.\<close>

definition inListOk :: "Utils \<Rightarrow> RuleType \<Rightarrow> bool" where
  "inListOk u r =
     (let xs = toArray u (val r) in
      val r \<noteq> JStr [] \<and> joined u xs = val r
      \<and> (valueSource r = None \<and> sameType xs
            \<and> list_all (\<lambda>x. \<not> shouldRenderAsNumber u x (Some False)) xs
          \<or> valueSource r = Some ''field'' \<and> xs \<noteq> []))"

definition numericBounds :: "Utils \<Rightarrow> jsval \<Rightarrow> jsval \<Rightarrow> bool" where
  "numericBounds u a b =
     (shouldRenderAsNumber u a (Some True) \<and> shouldRenderAsNumber u b (Some True))"

text \<open>A rule of \<open>between\<close> as the parser builds it: the value is the joined pair of its
  bounds, in ascending order when both are rendered as numbers.\<close>

definition betweenOk :: "Utils \<Rightarrow> RuleType \<Rightarrow> bool" where
  "betweenOk u r = (case toArray u (val r) of
       a # b # rest \<Rightarrow>
         isValidValue u a \<and> isValidValue u b \<and> 2 \<le> valueLength (val r) \<and> isString (val r)
         \<and> (valueSource r = None \<and> numericBounds u a b
               \<and> (case (parseNumber u a (Some True), parseNumber u b (Some True)) of
                     (JNum x, JNum y) \<Rightarrow> joined u [JNum (min x y), JNum (max x y)] = val r
                   | _ \<Rightarrow> False)
             \<or> valueSource r = None \<and> \<not> numericBounds u a b \<and> sameType [a, b]
               \<and> joined u [a, b] = val r
             \<or> valueSource r = Some ''field'' \<and> isString a \<and> isString b
               \<and> joined u [a, b] = val r)
     | _ \<Rightarrow> False)"

text \<open>The rules that the parser builds from the output of the rule processor for the
  operators \<open>=\<close>, \<open>!=\<close>, \<open><\<close>, \<open><=\<close>, \<open>>\<close>, \<open>>=\<close>, \<open>contains\<close>, \<open>beginsWith\<close>,
  \<open>endsWith\<close>, \<open>null\<close>, \<open>notNull\<close>, \<open>in\<close> and \<open>between\<close>.\<close>

definition roundTripRule :: "Utils \<Rightarrow> RuleType \<Rightarrow> bool" where
  "roundTripRule u r =
     (rule_not r = None \<and> field r \<noteq> ''~''
      \<and> (if operator r = ''='' \<or> operator r = ''!=''
          then comparisonOk u r \<and> val r \<noteq> JNull
          else if operator r = ''<'' \<or> operator r = ''<='' \<or> operator r = ''>''
                  \<or> operator r = ''>='' \<or> operator r = ''beginsWith'' \<or> operator r = ''endsWith''
          then comparisonOk u r
          else if operator r = ''contains''
          then valueSource r = None \<and> plainValue u (val r)
          else if operator r = ''null'' \<or> operator r = ''notNull''
          then valueSource r = None \<and> val r = JNull
          else if operator r = ''in'' then inListOk u r
          else if operator r = ''between'' then betweenOk u r
          else False))"

text \<open>The groups the parser builds: the combinator is \<open>and\<close> or \<open>or\<close>, \<open>not\<close> is absent
  or \<open>true\<close>, and there is at least one rule (an empty group is formatted as \<open>false\<close>, which
  the parser drops from a list of rules).\<close>

fun roundTripGroup :: "Utils \<Rightarrow> RuleGroupType \<Rightarrow> bool"
  and roundTripItem :: "Utils \<Rightarrow> RuleOrGroup \<Rightarrow> bool" where
  "roundTripGroup u (RuleGroup i comb n rs) =
     ((comb = ''and'' \<or> comb = ''or'') \<and> (n = None \<or> n = Some True) \<and> rs \<noteq> []
      \<and> list_all (roundTripItem u) rs)"
| "roundTripItem u (RuleItem r) = roundTripRule u r"
| "roundTripItem u (GroupItem g) = roundTripGroup u g"

text \<open>At the root the empty \<open>and\<close> group is given back as well, as \<open>emptyRuleGroup\<close>.\<close>

definition roundTripQuery :: "Utils \<Rightarrow> RuleGroupType \<Rightarrow> bool" where
  "roundTripQuery u g =
     (roundTripGroup u g \<or> (combinator g = ''and'' \<and> gnot g = None \<and> rules g = []))"

text \<open>The local variables of \<open>formatQuery(ruleGroup, 'postgrest')\<close>.\<close>

definition postgrestConfig :: "Utils \<Rightarrow> Imports \<Rightarrow> Config" where
  "postgrestConfig u d = configOf u d (FormatName postgrest)"

text \<open>A query of two levels in that form.\<close>

definition exampleTree :: RuleGroupType where
  "exampleTree =
     RuleGroup (Some ''g1'') ''and'' None
       [RuleItem ((exampleRule ''a'' ''='' (JStr ''x''))\<lparr>rid := Some ''r1''\<rparr>),
        GroupItem (RuleGroup None ''or'' (Some True)
          [RuleItem (exampleRule ''b'' ''in'' (JStr ''x,y'')),
           RuleItem (exampleRule ''age'' ''between'' (JStr ''5,10''))])]"

section \<open>Evaluation rules\<close>

lemmas guard_defs =
  isPojo_def isArray_def isString_def isNumber_def isBoolean_def hasKey_def propOf_def
  isPostgRESTVar_def isRQBPostgRESTVar_def varName_def
  isPostgRESTEqual_def isPostgRESTStrictEqual_def isPostgRESTNotEqual_def
  isPostgRESTStrictNotEqual_def isPostgRESTNegation_def isPostgRESTDoubleNegation_def
  isPostgRESTOr_def isPostgRESTAnd_def isPostgRESTGreaterThan_def
  isPostgRESTGreaterThanOrEqual_def isPostgRESTLessThan_def isPostgRESTLessThanOrEqual_def
  isPostgRESTInArray_def isPostgRESTInString_def isPostgRESTBetweenExclusive_def
  isPostgRESTBetweenInclusive_def isRQBPostgRESTStartsWith_def isRQBPostgRESTEndsWith_def
  jsIndex_def lengthIs_def indexName_def

lemmas parse_defs =
  firstEntry_def customOperation_def destructure2_def orElse_def isBasicOperation_def
  translateOperator_def mkRule_def processBasic_def valueLength_def literalList_def
  fieldList_def processBetweenInclusive_def processInArray_def processLists_def
  finishRule_def negateParsed_def betweenExclusiveAsAnd_def betweenExclusiveValuesOk_def
  defaultOperatorNegationMap_def emptyRuleGroup_def

lemmas config_defs = configOf_def configOfName_def configOfOptions_def optionsWithPresets_def
  sqlDialectPresets_def emptyOptions_def orPreset_def defaultFallbackExpression_def
  getQuoteFieldNamesWithArray_def defaultPlaceholderFieldName_def defaultPlaceholderOperatorName_def

lemmas format_defs =
  formatQuery_def formatValidated_def invalidQueryResult_def anyOf_def standardOf_def
  isGroupValid_def isRuleValid_def validOf_def groupValidation_def validateRule_def
  ruleIsSkipped_def plainOptions_def celOptions_def jsonataOptions_def sqlOptions_def
  nlOptions_def parameterizedOptions_def processWith_def joinTruthy_def separatorOf_def
  processRuleSQL_def processRuleNL_def processRuleParameterized_def escapeQuotesOf_def
  asValueProcessor_def orElseProcessor_def ruleProcessorPostgREST_def truthy_def

section \<open>The replacement of placeholder rules and the regions of formatQuery\<close>




















section \<open>The removal of placeholder rules and the regions of formatQuery\<close>





lemma not_truthy_empty [simp]: "\<not> truthy (JStr [])" "\<not> truthy (JBool False)"
  by (simp_all add: truthy_def)




















section \<open>Claims about parsePostgREST\<close>

text \<open>
  C5. For every input string that is not valid JSON (\<open>JSON.parse\<close> throws, that is
  \<open>JSON_parse u s = None\<close>), \<open>parsePostgREST\<close> returns the canonical empty group
  \<open>{combinator: 'and', rules: []}\<close> and does not throw, whatever the options.
\<close>

theorem malformed_text_gives_empty_group:
  assumes "JSON_parse u s = None"
  shows "parsePostgREST opts u (JStr s) = Inr (Query (GroupItem (RuleGroup None ''and'' None [])))"
  using assms by (simp add: parsePostgREST_def emptyRuleGroup_def)

theorem malformed_text_gives_empty_group_witness:
  "JSON_parse exampleUtils ''{and'' = None
   \<and> parsePostgREST noOptions exampleUtils (JStr ''{and'')
       = Inr (Query (GroupItem (RuleGroup None ''and'' None [])))"
  using malformed_text_gives_empty_group [of exampleUtils "''{and''" noOptions]
  by (simp add: exampleUtils_def)

text \<open>
  C6. \<open>parsePostgREST\<close> without \<open>independentCombinators\<close> is to return a group for
  every input, a rule parsed at the top level being wrapped in a one-element \<open>and\<close>
  group, also on the \<open>!!\<close> path. At \<open>{"!!": {"==": [{"var": "a"}, 1]}}\<close> the \<open>!!\<close>
  branch parses its operand without \<open>outermost\<close> and returns the bare rule, which
  \<open>parsePostgREST\<close> returns unwrapped.
\<close>

theorem double_negation_returns_bare_rule:
  "parsePostgREST noOptions u
     (JObj [(''!!'', JObj [(''=='', JArr [JObj [(''var'', JStr ''a'')], JNum 1])])])
   = Inr (Query (RuleItem \<lparr>rid = None, field = ''a'', operator = ''='', val = JNum 1,
                           valueSource = None, rule_not = None\<rparr>))"
  by (simp add: parsePostgREST_def processLogic.simps noOptions_def guard_defs parse_defs)

section \<open>Claims about formatQuery\<close>

text \<open>
  C8. Formatting the empty group \<open>{combinator: 'and', rules: []}\<close> with the format
  \<open>'sql'\<close> and no other options returns exactly the string \<open>(1 = 1)\<close>.
\<close>

theorem empty_group_sql:
  "formatQuery u d (Standard (RuleGroup None ''and'' None [])) (FormatName sql)
     = Result (JStr ''(1 = 1)'')"
  by (simp add: formatQuery_def formatValidated_def config_defs anyOf_def isGroupValid_def
        groupValidation_def)

lemma skipped_rule_sql:
  "ruleIsSkipped d c vm r \<Longrightarrow> \<not> truthy (processItemSQL u d c vm lonely (AnyRule r))"
  by (simp add: processRuleSQL_def)

lemma all_filtered_sql:
  assumes valid: "isGroupValid (groupValidation vm i)"
    and filtered: "list_all (\<lambda>x. \<not> truthy (processItemSQL u d c vm (length rs = 1) x)) rs"
  shows "processRuleGroupSQL u d c vm (AnyGroup i comb n rs) b
           = (if rs = [] then fallbackExpression c
              else (if n = Some True then ''NOT '' else []) @ ''()'')"
proof -
  have "filter truthy (map (processItemSQL u d c vm (length rs = 1)) rs) = []"
    using filtered by (simp add: filter_empty_conv list_all_iff)
  then show ?thesis
    using valid by (simp add: joinTruthy_def)
qed

text \<open>
  C7. When formatting as \<open>'sql'\<close>, a group that validation accepts, at any depth of the
  tree and whatever \<open>outermostOrLonelyInGroup\<close>: when its \<open>rules\<close> are empty it yields the
  fallback expression; when its \<open>rules\<close> are not empty and every element is filtered out
  (processed to a value that \<open>.filter(Boolean)\<close> removes) it yields the empty join result
  \<open>()\<close>, after \<open>NOT\<close> when the group is negated, and not the fallback expression. Every
  rule that is skipped (a placeholder rule, or a rule that validation rejects) is filtered
  out. When the group is the root of the tree, standard or with independent combinators,
  this is what \<open>formatQuery\<close> returns.
\<close>

theorem all_filtered_group_sql:
  assumes valid: "isGroupValid (groupValidation vm i)"
    and filtered: "list_all (\<lambda>x. \<not> truthy (processItemSQL u d c vm (length rs = 1) x)) rs"
  shows "processRuleGroupSQL u d c vm (AnyGroup i comb n rs) outermostOrLonelyInGroup
           = (if rs = [] then fallbackExpression c
              else (if n = Some True then ''NOT '' else []) @ ''()'')
       \<and> (\<forall>r lonely. ruleIsSkipped d c vm r
             \<longrightarrow> \<not> truthy (processItemSQL u d c vm lonely (AnyRule r)))
       \<and> (c = configOf u d options \<and> format c = sql \<and> anyOf ruleGroup = AnyGroup i comb n rs
           \<and> (validator c ruleGroup = Whole True \<and> vm = (\<lambda>i. None)
                \<or> validator c ruleGroup = PerNode vm)
          \<longrightarrow> formatQuery u d ruleGroup options
                = Result (JStr (if rs = [] then fallbackExpression c
                                else (if n = Some True then ''NOT '' else []) @ ''()'')))"
proof (intro conjI impI allI)
  show "processRuleGroupSQL u d c vm (AnyGroup i comb n rs) outermostOrLonelyInGroup
           = (if rs = [] then fallbackExpression c
              else (if n = Some True then ''NOT '' else []) @ ''()'')"
    using valid filtered by (rule all_filtered_sql)
next
  fix r lonely
  assume "ruleIsSkipped d c vm r"
  then show "\<not> truthy (processItemSQL u d c vm lonely (AnyRule r))"
    by (rule skipped_rule_sql)
next
  assume a: "c = configOf u d options \<and> format c = sql \<and> anyOf ruleGroup = AnyGroup i comb n rs
           \<and> (validator c ruleGroup = Whole True \<and> vm = (\<lambda>i. None)
                \<or> validator c ruleGroup = PerNode vm)"
  then have c: "configOf u d options = c" and fmt: "format c = sql"
    and shape: "anyOf ruleGroup = AnyGroup i comb n rs"
    and ok: "validator c ruleGroup = Whole True \<and> vm = (\<lambda>i. None)
                \<or> validator c ruleGroup = PerNode vm"
    by blast+
  have "formatQuery u d ruleGroup options = Result (formatValidated u d c vm ruleGroup)"
    using fmt ok by (auto simp: formatQuery_def c)
  also have "formatValidated u d c vm ruleGroup
               = JStr (processRuleGroupSQL u d c vm (AnyGroup i comb n rs) True)"
    by (simp add: formatValidated_def fmt shape)
  also have "processRuleGroupSQL u d c vm (AnyGroup i comb n rs) True
               = (if rs = [] then fallbackExpression c
                  else (if n = Some True then ''NOT '' else []) @ ''()'')"
    using valid filtered by (rule all_filtered_sql)
  finally show "formatQuery u d ruleGroup options
                = Result (JStr (if rs = [] then fallbackExpression c
                                else (if n = Some True then ''NOT '' else []) @ ''()''))" .
qed

theorem all_filtered_group_sql_witness:
  "processRuleGroupSQL exampleUtils exampleImports
     (configOf exampleUtils exampleImports (FormatName sql)) (\<lambda>i. None)
     (AnyGroup None (Some ''and'') None [AnyRule (exampleRule ''~'' ''='' (JStr ''x''))]) False
   = ''()''
   \<and> formatQuery exampleUtils exampleImports
     (Standard (RuleGroup None ''and'' None [RuleItem (exampleRule ''~'' ''='' (JStr ''x''))]))
     (FormatName sql)
   = Result (JStr ''()'')
   \<and> formatQuery exampleUtils exampleImports
     (Standard (RuleGroup None ''and'' None
        [RuleItem (exampleRule ''a'' ''='' (JStr ''x'')),
         GroupItem (RuleGroup None ''or'' (Some True)
                      [RuleItem (exampleRule ''~'' ''='' (JStr ''x''))])]))
     (FormatName sql)
   = Result (JStr ''(a = ? and NOT ())'')"
proof -
  let ?q = "Standard (RuleGroup None ''and'' None [RuleItem (exampleRule ''~'' ''='' (JStr ''x''))])"
  let ?c = "configOf exampleUtils exampleImports (FormatName sql)"
  let ?p = "AnyRule (exampleRule ''~'' ''='' (JStr ''x''))"
  have f: "format ?c = sql" by (simp add: config_defs)
  have v: "validator ?c ?q = Whole True" by (simp add: config_defs)
  have s: "anyOf ?q = AnyGroup None (Some ''and'') None [?p]"
    by (simp add: anyOf_def)
  have g: "isGroupValid (groupValidation (\<lambda>i. None) None)"
    by (simp add: isGroupValid_def groupValidation_def)
  have k: "list_all (\<lambda>x. \<not> truthy (processItemSQL exampleUtils exampleImports ?c (\<lambda>i. None)
                                       (length [?p] = 1) x)) [?p]"
    by (simp add: processRuleSQL_def ruleIsSkipped_def config_defs exampleRule_def truthy_def)
  note inner = all_filtered_group_sql [OF g k, of "Some ''and''" None False "FormatName sql" ?q]
  note negated = all_filtered_group_sql [OF g k, of "Some ''or''" "Some True" False "FormatName sql" ?q]
  have nested: "formatQuery exampleUtils exampleImports
     (Standard (RuleGroup None ''and'' None
        [RuleItem (exampleRule ''a'' ''='' (JStr ''x'')),
         GroupItem (RuleGroup None ''or'' (Some True)
                      [RuleItem (exampleRule ''~'' ''='' (JStr ''x''))])]))
     (FormatName sql)
   = Result (JStr (''(a = ? and ''
       @ processRuleGroupSQL exampleUtils exampleImports ?c (\<lambda>i. None)
           (AnyGroup None (Some ''or'') (Some True) [?p]) False @ '')''))"
    by (simp add: format_defs config_defs exampleRule_def exampleImports_def exampleProcessor_def
          exampleUtils_def)
  show ?thesis
    using inner negated nested by (simp add: f v s)
qed

text \<open>
  C2. For every tree and every export format other than \<open>json\<close> and
  \<open>json_without_ids\<close>, if the validator applied to the whole tree returns \<open>false\<close>,
  \<open>formatQuery\<close> returns a value fixed by the format and the fallback expression alone:
  the fallback expression itself for \<open>sql\<close>, \<open>cel\<close>, \<open>spel\<close>, \<open>jsonata\<close>,
  \<open>natural_language\<close> and \<open>postgrest\<close>, \<open>{sql: fallback, params: []}\<close> and
  \<open>{sql: fallback, params: {}}\<close> for the parameterized formats, the fallback in braces for
  \<open>mongodb\<close>, \<open>false\<close> for \<open>jsonlogic\<close> and \<open>{}\<close> for \<open>elasticsearch\<close>. (The two JSON
  formats never call the validator.)
\<close>

theorem invalid_query_gives_fallback:
  assumes "validator (configOf u d options) ruleGroup = Whole False"
    and "format (configOf u d options) \<noteq> json"
    and "format (configOf u d options) \<noteq> json_without_ids"
  shows "formatQuery u d ruleGroup options =
     Result
       (if format (configOf u d options) = parameterized
        then JObj [(''sql'', JStr (fallbackExpression (configOf u d options))), (''params'', JArr [])]
        else if format (configOf u d options) = parameterized_named
        then JObj [(''sql'', JStr (fallbackExpression (configOf u d options))), (''params'', JObj [])]
        else if format (configOf u d options) = mongodb
        then JStr (''{'' @ fallbackExpression (configOf u d options) @ ''}'')
        else if format (configOf u d options) = jsonlogic then JBool False
        else if format (configOf u d options) = elasticsearch then JObj []
        else JStr (fallbackExpression (configOf u d options)))"
  using assms by (simp add: formatQuery_def invalidQueryResult_def)

theorem invalid_query_gives_fallback_witness:
  "formatQuery exampleUtils exampleImports
     (Standard (RuleGroup None ''and'' None [RuleItem (exampleRule ''a'' ''='' (JStr ''x''))]))
     (FormatOptions (rejectAll\<lparr>opt_format := Some sql\<rparr>))
   = Result (JStr ''(1 = 1)'')
   \<and> formatQuery exampleUtils exampleImports
     (Standard (RuleGroup None ''and'' None [RuleItem (exampleRule ''a'' ''='' (JStr ''x''))]))
     (FormatOptions (rejectAll\<lparr>opt_format := Some postgrest\<rparr>))
   = Result (JStr ''(1 = 1)'')"
proof -
  let ?o = "\<lambda>fmt. FormatOptions (rejectAll\<lparr>opt_format := Some fmt\<rparr>)"
  let ?c = "\<lambda>fmt. configOf exampleUtils exampleImports (?o fmt)"
  have f: "format (?c sql) = sql" "format (?c postgrest) = postgrest"
    and fb: "fallbackExpression (?c sql) = ''(1 = 1)''"
            "fallbackExpression (?c postgrest) = ''(1 = 1)''"
    and v: "validator (?c fmt) q = Whole False" for q fmt
    by (simp_all add: config_defs rejectAll_def)
  show ?thesis
    using invalid_query_gives_fallback [of exampleUtils exampleImports "?o sql", OF v]
      invalid_query_gives_fallback [of exampleUtils exampleImports "?o postgrest", OF v]
    by (simp add: f fb)
qed

text \<open>C2 does not hold of the format \<open>json\<close>: the validator returns \<open>false\<close>
  and the result is the JSON text of the tree, which differs from tree to tree.\<close>

theorem invalid_query_json_is_tree_text:
  "validator (configOf exampleUtils exampleImports (FormatOptions (rejectAll\<lparr>opt_format := Some json\<rparr>)))
     (Standard (RuleGroup None ''and'' None [RuleItem (exampleRule ''a'' ''='' (JStr ''x''))]))
   = Whole False
   \<and> formatQuery exampleUtils exampleImports
     (Standard (RuleGroup None ''and'' None [RuleItem (exampleRule ''a'' ''='' (JStr ''x''))]))
     (FormatOptions (rejectAll\<lparr>opt_format := Some json\<rparr>))
   = JSONText False
       (Standard (RuleGroup None ''and'' None [RuleItem (exampleRule ''a'' ''='' (JStr ''x''))]))
   \<and> formatQuery exampleUtils exampleImports
     (Standard (RuleGroup None ''and'' None [RuleItem (exampleRule ''a'' ''='' (JStr ''x''))]))
     (FormatOptions (rejectAll\<lparr>opt_format := Some json\<rparr>))
   \<noteq> formatQuery exampleUtils exampleImports
     (Standard (RuleGroup None ''and'' None []))
     (FormatOptions (rejectAll\<lparr>opt_format := Some json\<rparr>))"
  by (simp add: formatQuery_def config_defs rejectAll_def)




section \<open>Claims about defaultRuleProcessorPostgREST\<close>

lemma negateIfNotOp_between [simp]: "negateIfNotOp ''between'' j = j"
  by (simp add: negateIfNotOp_def lowerCase_def lower_char_def)

lemma negateIfNotOp_notBetween [simp]: "negateIfNotOp ''notBetween'' j = JObj [(''not'', j)]"
  by (simp add: negateIfNotOp_def lowerCase_def lower_char_def)

lemma between_numeric:
  assumes op: "operator r = ''between'' \<or> operator r = ''notBetween''"
    and vs: "valueSource r \<noteq> Some ''field''"
    and arr: "toArray u (val r) = a # b # rest"
    and valid: "isValidValue u a" "isValidValue u b"
    and num: "shouldRenderAsNumber u a (Some True)" "shouldRenderAsNumber u b (Some True)"
    and pa: "parseNumber u a (Some True) = JNum x"
    and pb: "parseNumber u b (Some True) = JNum y"
  shows "defaultRuleProcessorPostgREST u r pn =
           negateIfNotOp (operator r)
             (JObj [(''<='', JArr [JNum (min x y), JObj [(''var'', JStr (field r))], JNum (max x y)])])"
  using assms
  by (auto simp: defaultRuleProcessorPostgREST_def Let_def jsLess_def min_def max_def)

text \<open>
  C10. For a \<open>between\<close> or \<open>notBetween\<close> rule whose value is not a list of fields and
  whose two bounds are both rendered as numbers, with \<open>lo\<close> the smaller and \<open>hi\<close> the
  larger of the two numbers: \<open>lo \<le> hi\<close>; a \<open>between\<close> rule gives
  \<open>{'<=': [lo, {var: field}, hi]}\<close>; a \<open>notBetween\<close> rule gives an object with one key
  whose value is that object; and the rule with the two bounds swapped gives the same output.
\<close>

theorem between_bounds_sorted:
  assumes op: "operator r = ''between'' \<or> operator r = ''notBetween''"
    and vs: "valueSource r \<noteq> Some ''field''"
    and arr: "toArray u (val r) = a # b # rest"
    and swapped: "toArray u v' = b # a # rest'"
    and valid: "isValidValue u a" "isValidValue u b"
    and num: "shouldRenderAsNumber u a (Some True)" "shouldRenderAsNumber u b (Some True)"
    and pa: "parseNumber u a (Some True) = JNum x"
    and pb: "parseNumber u b (Some True) = JNum y"
  shows "min x y \<le> max x y
   \<and> (operator r = ''between'' \<longrightarrow>
        defaultRuleProcessorPostgREST u r pn =
          JObj [(''<='', JArr [JNum (min x y), JObj [(''var'', JStr (field r))], JNum (max x y)])])
   \<and> (operator r = ''notBetween'' \<longrightarrow>
        (\<exists>k. defaultRuleProcessorPostgREST u r pn =
          JObj [(k, JObj [(''<='', JArr [JNum (min x y), JObj [(''var'', JStr (field r))],
                                          JNum (max x y)])])]))
   \<and> defaultRuleProcessorPostgREST u (r\<lparr>val := v'\<rparr>) pn = defaultRuleProcessorPostgREST u r pn"
proof -
  have 1: "defaultRuleProcessorPostgREST u r pn =
           negateIfNotOp (operator r)
             (JObj [(''<='', JArr [JNum (min x y), JObj [(''var'', JStr (field r))], JNum (max x y)])])"
    using op vs arr valid num pa pb by (rule between_numeric)
  have 2: "defaultRuleProcessorPostgREST u (r\<lparr>val := v'\<rparr>) pn =
           negateIfNotOp (operator r)
             (JObj [(''<='', JArr [JNum (min y x), JObj [(''var'', JStr (field r))], JNum (max y x)])])"
    using between_numeric [of "r\<lparr>val := v'\<rparr>" u b a rest' y x pn] op vs swapped valid num pa pb
    by simp
  show ?thesis
    using 1 2 by (auto simp: min.commute max.commute)
qed

lemma exampleToArray_5_10: "exampleToArray (JStr ''10,5'') = [JStr ''10'', JStr ''5'']"
  by (simp add: exampleToArray_def trim_def)

theorem between_bounds_sorted_witness:
  "defaultRuleProcessorPostgREST exampleUtils (exampleRule ''age'' ''between'' (JStr ''10,5'')) None
     = JObj [(''<='', JArr [JNum 5, JObj [(''var'', JStr ''age'')], JNum 10])]
   \<and> defaultRuleProcessorPostgREST exampleUtils (exampleRule ''age'' ''between'' (JStr ''5,10'')) None
     = defaultRuleProcessorPostgREST exampleUtils (exampleRule ''age'' ''between'' (JStr ''10,5'')) None"
proof -
  let ?r = "exampleRule ''age'' ''between'' (JStr ''10,5'')"
  have a: "toArray exampleUtils (val ?r) = JStr ''10'' # JStr ''5'' # []"
    and b: "toArray exampleUtils (JStr ''5,10'') = JStr ''5'' # JStr ''10'' # []"
    by (simp_all add: exampleUtils_def exampleRule_def exampleToArray_def trim_def)
  have o: "operator ?r = ''between'' \<or> operator ?r = ''notBetween''"
    and vs: "valueSource ?r \<noteq> Some ''field''"
    by (simp_all add: exampleRule_def)
  have v: "isValidValue exampleUtils (JStr ''10'')" "isValidValue exampleUtils (JStr ''5'')"
    and n: "shouldRenderAsNumber exampleUtils (JStr ''10'') (Some True)"
           "shouldRenderAsNumber exampleUtils (JStr ''5'') (Some True)"
    and p: "parseNumber exampleUtils (JStr ''10'') (Some True) = JNum 10"
           "parseNumber exampleUtils (JStr ''5'') (Some True) = JNum 5"
    by (simp_all add: exampleUtils_def isDigits_def digitValue_def digitsValue_def)
  have r': "?r\<lparr>val := JStr ''5,10''\<rparr> = exampleRule ''age'' ''between'' (JStr ''5,10'')"
    and f: "field ?r = ''age''" and oo: "operator ?r = ''between''"
    by (simp_all add: exampleRule_def)
  show ?thesis
    using between_bounds_sorted [OF o vs a b v n p, of None]
    by (simp add: r' f oo)
qed

text \<open>C10 does not hold of a \<open>notBetween\<close> rule as it is worded: the output is not
  \<open>{'<=': [lo, {var: field}, hi]}\<close> but an object around it.\<close>

theorem notBetween_is_wrapped:
  "defaultRuleProcessorPostgREST exampleUtils (exampleRule ''age'' ''notBetween'' (JStr ''1,2'')) None
     = JObj [(''not'', JObj [(''<='', JArr [JNum 1, JObj [(''var'', JStr ''age'')], JNum 2])])]
   \<and> defaultRuleProcessorPostgREST exampleUtils (exampleRule ''age'' ''notBetween'' (JStr ''1,2'')) None
     \<noteq> JObj [(''<='', JArr [JNum 1, JObj [(''var'', JStr ''age'')], JNum 2])]"
  by (simp add: defaultRuleProcessorPostgREST_def exampleRule_def exampleUtils_def
        exampleToArray_def trim_def isDigits_def digitValue_def digitsValue_def jsLess_def)

section \<open>Negation in processLogic\<close>

lemma shown: "exampleNumberToString 1 = ''1''" "exampleNumberToString 2 = ''2''" "exampleNumberToString 12 = ''12''"
  by code_simp+

lemma processLogic_negation:
  assumes "isPostgRESTNegation logic"
    and "customOperation opts (fst (firstEntry logic)) = None"
    and "\<not> isPostgRESTAnd logic" "\<not> isPostgRESTOr logic"
  shows "processLogic opts u logic outermost =
     (case processLogic opts u (propOf logic ''!'') False of
        Inl e \<Rightarrow> Inl e
      | Inr None \<Rightarrow> Inr None
      | Inr (Some rule) \<Rightarrow> Inr (Some (negateParsed outermost (propOf logic ''!'') rule)))"
proof -
  have "isPojo logic" using assms(1) by (cases logic) (auto simp: isPostgRESTNegation_def hasKey_def isPojo_def)
  then show ?thesis
    using assms by (subst processLogic.simps) simp
qed

text \<open>
  C4. When the operand of \<open>!\<close> parses to a rule whose operator is \<open>between\<close>, \<open>in\<close>,
  \<open>contains\<close>, \<open>beginsWith\<close> or \<open>endsWith\<close>, \<open>processLogic\<close> returns that rule with the
  operator replaced by its negated counterpart, as a rule below the top level and in a
  one-element \<open>and\<close> group without \<open>not\<close> at the top level. With \<open>listsAsArrays\<close>,
  \<open>parsePostgREST\<close> turns \<open>{"!": {"in": [{"var": "a"}, [1, 2]]}}\<close> into the rule with field
  \<open>a\<close>, operator \<open>notIn\<close> and value \<open>[1, 2]\<close>, in such a group.
\<close>

theorem negation_replaces_operator:
  assumes "isPostgRESTNegation logic"
    and "customOperation opts (fst (firstEntry logic)) = None"
    and "\<not> isPostgRESTAnd logic" and "\<not> isPostgRESTOr logic"
    and "processLogic opts u (propOf logic ''!'') False = Inr (Some (RuleItem r))"
    and "operator r = ''between'' \<or> operator r = ''in'' \<or> operator r = ''contains''
         \<or> operator r = ''beginsWith'' \<or> operator r = ''endsWith''"
  shows "processLogic opts u logic False
           = Inr (Some (RuleItem (r\<lparr>operator := defaultOperatorNegationMap (operator r)\<rparr>)))
    \<and> processLogic opts u logic True
           = Inr (Some (GroupItem (RuleGroup None ''and'' None
                   [RuleItem (r\<lparr>operator := defaultOperatorNegationMap (operator r)\<rparr>)])))
    \<and> defaultOperatorNegationMap (operator r) \<in>
          {''notBetween'', ''notIn'', ''doesNotContain'', ''doesNotBeginWith'', ''doesNotEndWith''}
    \<and> parsePostgREST (noOptions\<lparr>listsAsArrays := True\<rparr>) u notInExample
         = Inr (Query (GroupItem (RuleGroup None ''and'' None
                 [RuleItem \<lparr>rid = None, field = ''a'', operator = ''notIn'',
                            val = JArr [JNum 1, JNum 2], valueSource = None, rule_not = None\<rparr>])))"
proof -
  have ex: "parsePostgREST (noOptions\<lparr>listsAsArrays := True\<rparr>) u notInExample
         = Inr (Query (GroupItem (RuleGroup None ''and'' None
                 [RuleItem \<lparr>rid = None, field = ''a'', operator = ''notIn'',
                            val = JArr [JNum 1, JNum 2], valueSource = None, rule_not = None\<rparr>])))"
    by (simp add: parsePostgREST_def processLogic.simps noOptions_def notInExample_def guard_defs
          parse_defs eval_nat_numeral)
  show ?thesis
    using assms(5,6) ex
    by (auto simp: processLogic_negation [OF assms(1-4)] negateParsed_def
          defaultOperatorNegationMap_def)
qed

theorem negation_replaces_operator_witness:
  "isPostgRESTNegation notInExample
   \<and> processLogic noOptions exampleUtils (propOf notInExample ''!'') False
       = Inr (Some (RuleItem (exampleRule ''a'' ''in'' (JStr ''1,2''))))
   \<and> processLogic noOptions exampleUtils notInExample False
       = Inr (Some (RuleItem (exampleRule ''a'' ''notIn'' (JStr ''1,2''))))
   \<and> processLogic noOptions exampleUtils notInExample True
       = Inr (Some (GroupItem (RuleGroup None ''and'' None
               [RuleItem (exampleRule ''a'' ''notIn'' (JStr ''1,2''))])))"
proof -
  let ?r = "exampleRule ''a'' ''in'' (JStr ''1,2'')"
  have n: "isPostgRESTNegation notInExample"
    and c: "customOperation noOptions (fst (firstEntry notInExample)) = None"
    and a: "\<not> isPostgRESTAnd notInExample" and b: "\<not> isPostgRESTOr notInExample"
    by (simp_all add: notInExample_def guard_defs firstEntry_def customOperation_def noOptions_def)
  have p: "processLogic noOptions exampleUtils (propOf notInExample ''!'') False
             = Inr (Some (RuleItem ?r))"
    by (simp add: processLogic.simps noOptions_def notInExample_def guard_defs parse_defs
          eval_nat_numeral exampleUtils_def shown exampleRule_def)
  have o: "operator ?r = ''between'' \<or> operator ?r = ''in'' \<or> operator ?r = ''contains''
         \<or> operator ?r = ''beginsWith'' \<or> operator ?r = ''endsWith''"
    by (simp add: exampleRule_def)
  have r': "?r\<lparr>operator := defaultOperatorNegationMap (operator ?r)\<rparr>
              = exampleRule ''a'' ''notIn'' (JStr ''1,2'')"
    by (simp add: exampleRule_def defaultOperatorNegationMap_def)
  show ?thesis
    using negation_replaces_operator [OF n c a b p o] n p by (simp add: r')
qed

text \<open>C4 does not hold of the value without options: \<open>listsAsArrays\<close> is off, and the value
  is the joined string \<open>1,2\<close>.\<close>

theorem negation_default_value_is_joined:
  "parsePostgREST noOptions exampleUtils notInExample
     = Inr (Query (GroupItem (RuleGroup None ''and'' None
             [RuleItem \<lparr>rid = None, field = ''a'', operator = ''notIn'', val = JStr ''1,2'',
                        valueSource = None, rule_not = None\<rparr>])))
   \<and> parsePostgREST noOptions exampleUtils notInExample
     \<noteq> Inr (Query (GroupItem (RuleGroup None ''and'' None
             [RuleItem \<lparr>rid = None, field = ''a'', operator = ''notIn'',
                        val = JArr [JNum 1, JNum 2], valueSource = None, rule_not = None\<rparr>])))"
  by (simp add: parsePostgREST_def processLogic.simps noOptions_def notInExample_def guard_defs
        parse_defs eval_nat_numeral exampleUtils_def shown)

section \<open>Formatting as PostgREST and parsing the result\<close>

lemma customOperation_noOptions [simp]: "customOperation noOptions k = None"
  by (simp add: customOperation_def noOptions_def)

lemma noOptions_simps [simp]:
  "fieldIsValid noOptions f op sf" "\<not> listsAsArrays noOptions" "\<not> independentCombinators noOptions"
  by (simp_all add: noOptions_def)

text \<open>\<open>processLogic\<close> on an object with one key that is none of \<open>and\<close>, \<open>or\<close>, \<open>!\<close>
  and \<open>!!\<close>.\<close>

lemma processLogic_one_key:
  assumes "k \<noteq> ''and''" "k \<noteq> ''or''" "k \<noteq> ''!''" "k \<noteq> ''!!''"
  shows "processLogic noOptions u (JObj [(k, kv)]) outermost =
     (case isBasicOperation (JObj [(k, kv)]) of
        Inl e \<Rightarrow> Inl e
      | Inr basic \<Rightarrow>
          if basic then
            (case processBasic noOptions (JObj [(k, kv)]) (Some k) kv of
               Inl e \<Rightarrow> Inl e
             | Inr rule \<Rightarrow> Inr (finishRule outermost rule))
          else if isPostgRESTBetweenExclusive (JObj [(k, kv)])
               \<and> isRQBPostgRESTVar (case propOf (JObj [(k, kv)]) ''<'' of JArr xs \<Rightarrow> nthOrUndefined xs 1 | _ \<Rightarrow> JUndefined)
          then
            (case propOf (JObj [(k, kv)]) ''<'' of
               JArr xs \<Rightarrow>
                 if betweenExclusiveValuesOk [nthOrUndefined xs 0, nthOrUndefined xs 2]
                 then processLogic noOptions u
                        (betweenExclusiveAsAnd (varName (nthOrUndefined xs 1))
                           (nthOrUndefined xs 0) (nthOrUndefined xs 2)) False
                 else Inr None
             | _ \<Rightarrow> Inr None)
          else
            (case processLists noOptions u (JObj [(k, kv)]) kv of
               Inl e \<Rightarrow> Inl e
             | Inr rule \<Rightarrow> Inr (finishRule outermost rule)))"
proof -
  have fe: "firstEntry (JObj [(k, kv)]) = (Some k, kv)"
    by (simp add: firstEntry_def)
  show ?thesis
    using assms
    apply (subst processLogic.simps)
    apply (unfold fe fst_conv snd_conv)
    apply (simp add: isPojo_def isPostgRESTAnd_def isPostgRESTOr_def
        isPostgRESTNegation_def isPostgRESTDoubleNegation_def hasKey_def)
    done
qed

lemma negateIfNotOp_plain [simp]:
  "negateIfNotOp ''in'' j = j" "negateIfNotOp ''contains'' j = j"
  "negateIfNotOp ''beginsWith'' j = j" "negateIfNotOp ''endsWith'' j = j"
  by (simp_all add: negateIfNotOp_def lowerCase_def lower_char_def)

lemma convertOperator_simps [simp]:
  "convertOperator ''='' = ''==''" "convertOperator ''!='' = ''!=''"
  "convertOperator ''<'' = ''<''" "convertOperator ''<='' = ''<=''"
  "convertOperator ''>'' = ''>''" "convertOperator ''>='' = ''>=''"
  by (simp_all add: convertOperator_def lowerCase_def)

lemma rule_without_id:
  "rule_not r = None \<Longrightarrow> r\<lparr>rid := None\<rparr> = mkRule (field r) (operator r) (val r) (valueSource r)"
  by (simp add: mkRule_def)

lemma render_plain:
  "plainValue u v \<Longrightarrow> fieldOrNumberRenderer u False (Some False) v = v"
  by (simp add: fieldOrNumberRenderer_def plainValue_def)

lemma render_field:
  "fieldOrNumberRenderer u True pn (JStr s) = JObj [(''var'', JStr s)]"
  by (simp add: fieldOrNumberRenderer_def)

lemma comparison_value:
  assumes "plainValue u v"
    and "k = ''=='' \<or> k = ''!='' \<or> k = ''<'' \<or> k = ''<='' \<or> k = ''>'' \<or> k = ''>=''
         \<or> k = ''startsWith'' \<or> k = ''endsWith''"
  shows "processLogic noOptions u (JObj [(k, JArr [JObj [(''var'', JStr f)], v])]) outermost
    = Inr (finishRule outermost (Some (mkRule f
         (if k = ''=='' then (if v = JNull then ''null'' else ''='')
          else if k = ''!='' then (if v = JNull then ''notNull'' else ''!='')
          else if k = ''startsWith'' then ''beginsWith''
          else if k = ''endsWith'' then ''endsWith'' else k) v None)))"
  using assms(2) assms(1)
  by (elim disjE;
      simp add: processLogic_one_key plainValue_def isBasicOperation_def orElse_def guard_defs
        processBasic_def destructure2_def translateOperator_def)

lemma comparison_field:
  assumes "k = ''=='' \<or> k = ''!='' \<or> k = ''<'' \<or> k = ''<='' \<or> k = ''>'' \<or> k = ''>=''
         \<or> k = ''startsWith'' \<or> k = ''endsWith''"
  shows "processLogic noOptions u (JObj [(k, JArr [JObj [(''var'', JStr f)], JObj [(''var'', JStr s)]])]) outermost
    = Inr (finishRule outermost (Some (mkRule f
         (if k = ''=='' then ''=''
          else if k = ''!='' then ''!=''
          else if k = ''startsWith'' then ''beginsWith''
          else if k = ''endsWith'' then ''endsWith'' else k) (JStr s) (Some ''field''))))"
  using assms
  by (elim disjE;
      simp add: processLogic_one_key isBasicOperation_def orElse_def guard_defs
        processBasic_def destructure2_def translateOperator_def)

lemma contains_value:
  assumes "plainValue u v"
  shows "processLogic noOptions u (JObj [(''in'', JArr [v, JObj [(''var'', JStr f)]])]) outermost
    = Inr (finishRule outermost (Some (mkRule f ''contains'' v None)))"
  using assms
  by (simp add: processLogic_one_key plainValue_def isBasicOperation_def orElse_def guard_defs
        processBasic_def destructure2_def translateOperator_def)

lemma sameType_not_vars: "sameType xs \<Longrightarrow> \<not> list_all isRQBPostgRESTVar xs"
  by (cases xs) (auto simp: sameType_def isRQBPostgRESTVar_def isPostgRESTVar_def hasKey_def
        isString_def isNumber_def isBoolean_def split: jsval.splits)

lemma var_object [simp]:
  "isRQBPostgRESTVar (JObj [(''var'', JStr f)])" "varName (JObj [(''var'', JStr f)]) = f"
  by (simp_all add: guard_defs)

lemma in_logic_lists:
  "processLogic noOptions u (JObj [(''in'', JArr [JObj [(''var'', JStr f)], JArr items])]) outermost
    = Inr (finishRule outermost (processInArray noOptions u (JObj [(''var'', JStr f)]) items))"
  by (simp add: processLogic_one_key isBasicOperation_def orElse_def guard_defs processLists_def)

lemma in_literals:
  assumes "sameType xs" and "joined u xs = JStr s" and "s \<noteq> []"
  shows "processInArray noOptions u (JObj [(''var'', JStr f)]) xs
           = Some (mkRule f ''in'' (JStr s) None)"
  using assms sameType_not_vars [OF assms(1)]
  by (simp add: processInArray_def literalList_def sameType_def joined_def valueLength_def)

lemma vars_all_var: "list_all isRQBPostgRESTVar (map (\<lambda>x. JObj [(''var'', JStr (g x))]) xs)"
  by (induction xs) simp_all

lemma vars_names: "map (varName \<circ> (\<lambda>x. JObj [(''var'', JStr (g x))])) xs = map g xs"
  by (induction xs) simp_all

lemma in_fields:
  assumes "joined u xs = JStr s" and "s \<noteq> []"
  shows "processInArray noOptions u (JObj [(''var'', JStr f)])
           (map (\<lambda>x. JObj [(''var'', JStr (toStr (numberToString u) x))]) xs)
           = Some (mkRule f ''in'' (JStr s) (Some ''field''))"
  using assms
  by (simp add: processInArray_def fieldList_def vars_all_var vars_names joined_def valueLength_def)

lemma between_logic_lists:
  "processLogic noOptions u (JObj [(''<='', JArr [a, JObj [(''var'', JStr f)], b])]) outermost
    = Inr (finishRule outermost
        (processBetweenInclusive noOptions u [a, JObj [(''var'', JStr f)], b]))"
  by (simp add: processLogic_one_key isBasicOperation_def orElse_def guard_defs processLists_def
        eval_nat_numeral)

lemma between_literals:
  assumes "sameType [a, b]" and "joined u [a, b] = JStr s" and "2 \<le> length s"
  shows "processBetweenInclusive noOptions u [a, JObj [(''var'', JStr f)], b]
           = Some (mkRule f ''between'' (JStr s) None)"
proof -
  have "\<not> isRQBPostgRESTVar a"
    using assms(1)
    by (auto simp: sameType_def isRQBPostgRESTVar_def isPostgRESTVar_def hasKey_def
          isString_def isNumber_def isBoolean_def split: jsval.splits)
  then show ?thesis
    using assms
    by (simp add: processBetweenInclusive_def literalList_def sameType_def joined_def
          valueLength_def eval_nat_numeral)
qed

lemma between_fields:
  assumes "joined u [JStr a, JStr b] = JStr s" and "2 \<le> length s"
  shows "processBetweenInclusive noOptions u
           [JObj [(''var'', JStr a)], JObj [(''var'', JStr f)], JObj [(''var'', JStr b)]]
           = Some (mkRule f ''between'' (JStr s) (Some ''field''))"
  using assms
  by (simp add: processBetweenInclusive_def fieldList_def joined_def
        valueLength_def eval_nat_numeral)

lemma processor_comparison:
  assumes "operator r = ''<'' \<or> operator r = ''<='' \<or> operator r = ''='' \<or> operator r = ''!=''
           \<or> operator r = ''>'' \<or> operator r = ''>=''"
  shows "defaultRuleProcessorPostgREST u r pn =
           JObj [(convertOperator (operator r),
                  JArr [JObj [(''var'', JStr (field r))],
                        fieldOrNumberRenderer u (valueSource r = Some ''field'') pn (val r)])]"
  using assms by (auto simp: defaultRuleProcessorPostgREST_def)

lemma processor_begins:
  assumes "operator r = ''beginsWith''"
  shows "defaultRuleProcessorPostgREST u r pn =
           JObj [(''startsWith'',
                  JArr [JObj [(''var'', JStr (field r))],
                        fieldOrNumberRenderer u (valueSource r = Some ''field'') pn (val r)])]"
  using assms by (simp add: defaultRuleProcessorPostgREST_def)

lemma processor_ends:
  assumes "operator r = ''endsWith''"
  shows "defaultRuleProcessorPostgREST u r pn =
           JObj [(''endsWith'',
                  JArr [JObj [(''var'', JStr (field r))],
                        fieldOrNumberRenderer u (valueSource r = Some ''field'') pn (val r)])]"
  using assms by (simp add: defaultRuleProcessorPostgREST_def)

lemma processor_contains:
  assumes "operator r = ''contains''"
  shows "defaultRuleProcessorPostgREST u r pn =
           JObj [(''in'',
                  JArr [fieldOrNumberRenderer u (valueSource r = Some ''field'') pn (val r),
                        JObj [(''var'', JStr (field r))]])]"
  using assms by (simp add: defaultRuleProcessorPostgREST_def)

lemma processor_null:
  assumes "operator r = ''null'' \<or> operator r = ''notNull''"
  shows "defaultRuleProcessorPostgREST u r pn =
           JObj [(if operator r = ''notNull'' then ''!='' else ''=='',
                  JArr [JObj [(''var'', JStr (field r))], JNull])]"
  using assms by (auto simp: defaultRuleProcessorPostgREST_def)

lemma processor_in:
  assumes "operator r = ''in''"
  shows "defaultRuleProcessorPostgREST u r pn =
           JObj [(''in'',
                  JArr [JObj [(''var'', JStr (field r))],
                        JArr (map (fieldOrNumberRenderer u (valueSource r = Some ''field'') pn)
                                (toArray u (val r)))])]"
  using assms by (simp add: defaultRuleProcessorPostgREST_def)

lemma processor_between:
  assumes "operator r = ''between''"
    and "toArray u (val r) = a # b # rest"
    and "isValidValue u a" "isValidValue u b"
  shows "defaultRuleProcessorPostgREST u r pn =
     (let bounds =
         (if valueSource r \<noteq> Some ''field'' \<and> numericBounds u a b
          then (if jsLess (toNumber u) (parseNumber u b (Some True)) (parseNumber u a (Some True))
                then (parseNumber u b (Some True), parseNumber u a (Some True))
                else (parseNumber u a (Some True), parseNumber u b (Some True)))
          else if valueSource r = Some ''field''
          then (JObj [(''var'', a)], JObj [(''var'', b)])
          else (a, b))
      in JObj [(''<='', JArr [fst bounds, JObj [(''var'', JStr (field r))], snd bounds])])"
  using assms by (simp add: defaultRuleProcessorPostgREST_def Let_def numericBounds_def)

lemma render_all_plain:
  "list_all (\<lambda>x. \<not> shouldRenderAsNumber u x pn) xs
   \<Longrightarrow> map (fieldOrNumberRenderer u False pn) xs = xs"
  by (induction xs) (simp_all add: fieldOrNumberRenderer_def)

lemma finishRule_Some: "finishRule outermost (Some x) \<noteq> None"
  by (simp add: finishRule_def)

lemma rule_round_trip:
  assumes "roundTripRule u r"
  shows "processLogic noOptions u (defaultRuleProcessorPostgREST u r (Some False)) outermost
           = Inr (finishRule outermost (Some (r\<lparr>rid := None\<rparr>)))"
proof -
  from assms have nn: "rule_not r = None"
    by (simp add: roundTripRule_def)
  note R = rule_without_id [OF nn]
  consider
      (cmp) "operator r = ''<'' \<or> operator r = ''<='' \<or> operator r = ''='' \<or> operator r = ''!=''
             \<or> operator r = ''>'' \<or> operator r = ''>=''"
    | (bw) "operator r = ''beginsWith''"
    | (ew) "operator r = ''endsWith''"
    | (co) "operator r = ''contains''"
    | (nu) "operator r = ''null'' \<or> operator r = ''notNull''"
    | (il) "operator r = ''in''"
    | (be) "operator r = ''between''"
    using assms by (auto simp: roundTripRule_def split: if_splits)
  then show ?thesis
  proof cases
    case cmp
    then have ok: "comparisonOk u r"
      and nonnull: "operator r = ''='' \<or> operator r = ''!='' \<Longrightarrow> val r \<noteq> JNull"
      using assms by (auto simp: roundTripRule_def split: if_splits)
    from ok consider (plain) "valueSource r = None" "plainValue u (val r)"
      | (fieldref) s where "valueSource r = Some ''field''" "val r = JStr s"
      by (cases "val r") (auto simp: comparisonOk_def isString_def)
    then show ?thesis
    proof cases
      case plain
      have k: "convertOperator (operator r) = ''=='' \<or> convertOperator (operator r) = ''!=''
          \<or> convertOperator (operator r) = ''<'' \<or> convertOperator (operator r) = ''<=''
          \<or> convertOperator (operator r) = ''>'' \<or> convertOperator (operator r) = ''>=''
          \<or> convertOperator (operator r) = ''startsWith'' \<or> convertOperator (operator r) = ''endsWith''"
        using cmp by auto
      show ?thesis
        unfolding processor_comparison [OF cmp] R
        using plain cmp nonnull
        by (simp add: render_plain comparison_value [OF plain(2) k]) auto
    next
      case fieldref
      have k: "convertOperator (operator r) = ''=='' \<or> convertOperator (operator r) = ''!=''
          \<or> convertOperator (operator r) = ''<'' \<or> convertOperator (operator r) = ''<=''
          \<or> convertOperator (operator r) = ''>'' \<or> convertOperator (operator r) = ''>=''
          \<or> convertOperator (operator r) = ''startsWith'' \<or> convertOperator (operator r) = ''endsWith''"
        using cmp by auto
      show ?thesis
        unfolding processor_comparison [OF cmp] R
        using fieldref cmp
        by (simp add: render_field comparison_field [OF k]) auto
    qed
  next
    case bw
    then have ok: "comparisonOk u r"
      using assms by (auto simp: roundTripRule_def split: if_splits)
    from ok consider (plain) "valueSource r = None" "plainValue u (val r)"
      | (fieldref) s where "valueSource r = Some ''field''" "val r = JStr s"
      by (cases "val r") (auto simp: comparisonOk_def isString_def)
    then show ?thesis
    proof cases
      case plain
      show ?thesis
        unfolding processor_begins [OF bw] R
        using plain bw by (simp add: render_plain comparison_value)
    next
      case fieldref
      show ?thesis
        unfolding processor_begins [OF bw] R
        using fieldref bw by (simp add: render_field comparison_field)
    qed
  next
    case ew
    then have ok: "comparisonOk u r"
      using assms by (auto simp: roundTripRule_def split: if_splits)
    from ok consider (plain) "valueSource r = None" "plainValue u (val r)"
      | (fieldref) s where "valueSource r = Some ''field''" "val r = JStr s"
      by (cases "val r") (auto simp: comparisonOk_def isString_def)
    then show ?thesis
    proof cases
      case plain
      show ?thesis
        unfolding processor_ends [OF ew] R
        using plain ew by (simp add: render_plain comparison_value)
    next
      case fieldref
      show ?thesis
        unfolding processor_ends [OF ew] R
        using fieldref ew by (simp add: render_field comparison_field)
    qed
  next
    case co
    then have "valueSource r = None" "plainValue u (val r)"
      using assms by (auto simp: roundTripRule_def split: if_splits)
    then show ?thesis
      unfolding processor_contains [OF co] R
      using co by (simp add: render_plain contains_value)
  next
    case nu
    then have v: "valueSource r = None" "val r = JNull"
      using assms by (auto simp: roundTripRule_def split: if_splits)
    have p: "plainValue u' JNull \<or> True" for u' by simp
    have eq: "processLogic noOptions u (JObj [(k, JArr [JObj [(''var'', JStr f)], JNull])]) outermost
       = Inr (finishRule outermost (Some (mkRule f (if k = ''=='' then ''null'' else ''notNull'') JNull None)))"
      if "k = ''=='' \<or> k = ''!=''" for k f
      using that
      by (elim disjE;
          simp add: processLogic_one_key isBasicOperation_def orElse_def guard_defs
            processBasic_def destructure2_def translateOperator_def)
    show ?thesis
      unfolding processor_null [OF nu] R
      using nu v by (auto simp: eq)
  next
    case il
    then have ok: "inListOk u r"
      using assms by (auto simp: roundTripRule_def split: if_splits)
    then obtain s where s: "val r = JStr s" "s \<noteq> []" "joined u (toArray u (val r)) = JStr s"
      by (cases "val r") (auto simp: inListOk_def Let_def joined_def)
    from ok consider (plain) "valueSource r = None" "sameType (toArray u (val r))"
            "list_all (\<lambda>x. \<not> shouldRenderAsNumber u x (Some False)) (toArray u (val r))"
      | (fieldref) "valueSource r = Some ''field''"
      by (auto simp: inListOk_def Let_def)
    then show ?thesis
    proof cases
      case plain
      have "map (fieldOrNumberRenderer u False (Some False)) (toArray u (val r)) = toArray u (val r)"
        using plain(3) by (rule render_all_plain)
      then show ?thesis
        unfolding processor_in [OF il] R
        using plain il s by (simp add: in_logic_lists in_literals)
    next
      case fieldref
      have m: "fieldOrNumberRenderer u True (Some False)
             = (\<lambda>x. JObj [(''var'', JStr (toStr (numberToString u) x))])"
        by (rule ext) (simp add: fieldOrNumberRenderer_def)
      show ?thesis
        unfolding processor_in [OF il] R
        using fieldref il s by (simp add: in_logic_lists m in_fields)
    qed
  next
    case be
    then have ok: "betweenOk u r"
      using assms by (auto simp: roundTripRule_def split: if_splits)
    then obtain a b rest where arr: "toArray u (val r) = a # b # rest"
      by (auto simp: betweenOk_def split: list.splits)
    with ok obtain s where s: "val r = JStr s" "2 \<le> length s"
      and valid: "isValidValue u a" "isValidValue u b"
      by (cases "val r") (auto simp: betweenOk_def isString_def valueLength_def)
    from ok arr consider
        (numeric) x y where "valueSource r = None" "numericBounds u a b"
          "parseNumber u a (Some True) = JNum x" "parseNumber u b (Some True) = JNum y"
          "joined u [JNum (min x y), JNum (max x y)] = val r"
      | (literal) "valueSource r = None" "\<not> numericBounds u a b" "sameType [a, b]"
          "joined u [a, b] = val r"
      | (fieldref) "valueSource r = Some ''field''" "isString a" "isString b" "joined u [a, b] = val r"
      by (auto simp: betweenOk_def split: jsval.splits)
    then show ?thesis
    proof cases
      case numeric
      have st: "sameType [JNum (min x y), JNum (max x y)]"
        by (simp add: sameType_def isNumber_def)
      have b: "(if jsLess (toNumber u) (JNum y) (JNum x) then (JNum y, JNum x) else (JNum x, JNum y))
                 = (JNum (min x y), JNum (max x y))"
        by (auto simp: jsLess_def min_def max_def)
      have pl: "processBetweenInclusive noOptions u
                  [JNum (min x y), JObj [(''var'', JStr (field r))], JNum (max x y)]
                = Some (mkRule (field r) ''between'' (JStr s) None)"
        using numeric(5) s by (intro between_literals [OF st]) simp_all
      have pl1: "processBetweenInclusive noOptions u [JNum y, JObj [(''var'', JStr (field r))], JNum x]
                = Some (mkRule (field r) ''between'' (JStr s) None)"
        if "jsLess (toNumber u) (JNum y) (JNum x)"
        using pl that by (simp add: jsLess_def min_def max_def split: if_splits)
      have pl2: "processBetweenInclusive noOptions u [JNum x, JObj [(''var'', JStr (field r))], JNum y]
                = Some (mkRule (field r) ''between'' (JStr s) None)"
        if "\<not> jsLess (toNumber u) (JNum y) (JNum x)"
        using pl that by (simp add: jsLess_def min_def max_def split: if_splits)
      show ?thesis
        unfolding processor_between [OF be arr valid] R
        using numeric(1-4) be s(1)
        by (simp add: between_logic_lists pl1 pl2)
    next
      case literal
      show ?thesis
        unfolding processor_between [OF be arr valid] R
        using literal be s
        by (simp add: between_logic_lists between_literals)
    next
      case fieldref
      then obtain sa sb where ab: "a = JStr sa" "b = JStr sb"
        by (cases a; cases b) (auto simp: isString_def)
      show ?thesis
        unfolding processor_between [OF be arr valid] R
        using fieldref be s ab
        by (simp add: between_logic_lists between_fields)
    qed
  qed
qed

lemma processLogic_not_object:
  assumes "\<not> isPojo v"
  shows "processLogic noOptions u v outermost = Inr None"
proof -
  have k: "\<not> hasKey k v" for k
    using assms by (cases v) (simp_all add: hasKey_def isPojo_def)
  show ?thesis
    by (subst processLogic.simps)
       (simp add: k isPostgRESTAnd_def isPostgRESTOr_def isPostgRESTNegation_def
          isPostgRESTDoubleNegation_def isBasicOperation_def orElse_def isPostgRESTEqual_def
          isPostgRESTStrictEqual_def isPostgRESTNotEqual_def isPostgRESTStrictNotEqual_def
          isPostgRESTGreaterThan_def isPostgRESTGreaterThanOrEqual_def isPostgRESTLessThan_def
          isPostgRESTLessThanOrEqual_def isPostgRESTInString_def isRQBPostgRESTStartsWith_def
          isRQBPostgRESTEndsWith_def isPostgRESTBetweenExclusive_def processLists_def
          isPostgRESTBetweenInclusive_def isPostgRESTInArray_def finishRule_def)
qed

lemma parsed_is_truthy:
  assumes "processLogic noOptions u v outermost = Inr (Some x)"
  shows "truthy v"
proof (rule ccontr)
  assume "\<not> truthy v"
  then have "\<not> isPojo v"
    by (cases v) (simp_all add: truthy_def isPojo_def)
  then show False
    using processLogic_not_object [of v u outermost] assms by simp
qed

lemma processLogic_and:
  "processLogic noOptions u (JObj [(''and'', JArr ls)]) outermost =
     (case collect (map (\<lambda>l. processLogic noOptions u l False) ls) of
        Inl e \<Rightarrow> Inl e
      | Inr rs \<Rightarrow> Inr (Some (GroupItem (RuleGroup None ''and'' None (somes rs)))))"
  by (subst processLogic.simps)
     (simp add: isPojo_def isPostgRESTAnd_def hasKey_def propOf_def)

lemma processLogic_or:
  "processLogic noOptions u (JObj [(''or'', JArr ls)]) outermost =
     (case collect (map (\<lambda>l. processLogic noOptions u l False) ls) of
        Inl e \<Rightarrow> Inl e
      | Inr rs \<Rightarrow> Inr (Some (GroupItem (RuleGroup None ''or'' None (somes rs)))))"
  by (subst processLogic.simps)
     (simp add: isPojo_def isPostgRESTAnd_def isPostgRESTOr_def hasKey_def propOf_def)

lemma processLogic_not:
  "processLogic noOptions u (JObj [(''!'', inner)]) outermost =
     (case processLogic noOptions u inner False of
        Inl e \<Rightarrow> Inl e
      | Inr None \<Rightarrow> Inr None
      | Inr (Some rule) \<Rightarrow> Inr (Some (negateParsed outermost inner rule)))"
proof -
  have pr: "propOf (JObj [(''!'', inner)]) ''!'' = inner"
    by (simp add: propOf_def)
  show ?thesis
    apply (subst processLogic.simps)
    apply (unfold pr)
    apply (simp add: isPojo_def isPostgRESTAnd_def isPostgRESTOr_def isPostgRESTNegation_def
        hasKey_def)
    done
qed

lemma collect_all:
  assumes "\<And>x. x \<in> set xs \<Longrightarrow> f x = Inr (Some (g x))"
  shows "collect (map f xs) = Inr (map (\<lambda>x. Some (g x)) xs)"
  using assms by (induction xs) simp_all

lemma somes_map_Some: "somes (map (\<lambda>x. Some (g x)) xs) = map g xs"
  by (induction xs) simp_all

lemma item_rule:
  assumes flat: "toFlatOptionArray d [] = []" and r: "roundTripRule u r"
  shows "processItemPostgREST d (postgrestConfig u d) (\<lambda>i. None) (RuleItem r)
           = defaultRuleProcessorPostgREST u r (Some False)"
proof -
  have op: "operator r \<noteq> ''~''" and f: "field r \<noteq> ''~''"
    using r by (auto simp: roundTripRule_def split: if_splits)
  have "\<not> ruleIsSkipped d (postgrestConfig u d) (\<lambda>i. None) r"
    using op f flat
    by (simp add: ruleIsSkipped_def validateRule_def isRuleValid_def isGroupValid_def
          postgrestConfig_def config_defs split: option.splits)
  moreover have "ruleProcessorInternal (postgrestConfig u d) = Some (ruleProcessorPostgREST u)"
    and "parseNumbers (postgrestConfig u d) = False"
    by (simp_all add: postgrestConfig_def config_defs)
  ultimately show ?thesis
    by (simp add: processWith_def ruleProcessorPostgREST_def plainOptions_def)
qed

lemma group_round_trip:
  assumes flat: "toFlatOptionArray d [] = []"
  shows "roundTripGroup u g \<Longrightarrow>
           processLogic noOptions u
             (processRuleGroupPostgREST d (postgrestConfig u d) (\<lambda>i. None) g) outermost
           = Inr (Some (GroupItem (withoutIds g)))"
    and "roundTripItem u x \<Longrightarrow>
           processLogic noOptions u
             (processItemPostgREST d (postgrestConfig u d) (\<lambda>i. None) x) False
           = Inr (Some (withoutIdsItem x))"
proof (induction u g and u x arbitrary: outermost rule: roundTripGroup_roundTripItem.induct)
  case (1 u i comb n rs)
  let ?c = "postgrestConfig u d"
  let ?item = "processItemPostgREST d ?c (\<lambda>i. None)"
  from "1.prems" have comb: "comb = ''and'' \<or> comb = ''or''" and n: "n = None \<or> n = Some True"
    and ne: "rs \<noteq> []" and items: "\<And>x. x \<in> set rs \<Longrightarrow> roundTripItem u x"
    by (auto simp: list_all_iff)
  have each: "processLogic noOptions u (?item x) False = Inr (Some (withoutIdsItem x))"
    if "x \<in> set rs" for x
    using "1.IH" [OF that] items [OF that] by simp
  have "list_all truthy (map ?item rs)"
    using each by (auto simp: list_all_iff intro: parsed_is_truthy)
  then have filt: "filter truthy (map ?item rs) = map ?item rs"
    by (simp add: list_all_iff)
  have coll: "collect (map ((\<lambda>l. processLogic noOptions u l False) \<circ> ?item) rs)
               = Inr (map (\<lambda>x. Some (withoutIdsItem x)) rs)"
    using collect_all [of rs "\<lambda>x. processLogic noOptions u (?item x) False" withoutIdsItem] each
    by (simp add: comp_def)
  have inner: "processLogic noOptions u (JObj [(comb, JArr (map ?item rs))]) b
                = Inr (Some (GroupItem (RuleGroup None comb None (map withoutIdsItem rs))))" for b
    using comb by (auto simp: processLogic_and processLogic_or coll somes_map_Some)
  show ?case
    using n ne
    by (auto simp: isGroupValid_def groupValidation_def filt inner processLogic_not negateParsed_def)
next
  case (2 u r)
  then show ?case
    using rule_round_trip [of u r False] item_rule [OF flat, of u r]
    by (simp add: finishRule_def)
next
  case (3 u g)
  then show ?case by simp
qed

text \<open>
  C1. For every standard query in the form of \<open>roundTripQuery\<close>,
  \<open>formatQuery(query, 'postgrest')\<close> returns an object and \<open>parsePostgREST\<close> of that object
  is the query without its ids. The form is that of the parser's results:
  \<^item> a rule has no \<open>not\<close>, a field other than \<open>~\<close>, and one of the operators below;
  \<^item> \<open>=\<close>, \<open>!=\<close>, \<open><\<close>, \<open><=\<close>, \<open>>\<close>, \<open>>=\<close>, \<open>beginsWith\<close>, \<open>endsWith\<close>: no \<open>valueSource\<close>
    and a value that is not a plain object and is not rendered as a number (\<open>parseNumbers\<close>
    off), or
    \<open>valueSource: 'field'\<close> and a string; for \<open>=\<close> and \<open>!=\<close> the value is not \<open>null\<close>;
  \<^item> \<open>contains\<close>: no \<open>valueSource\<close> and such a value;
  \<^item> \<open>null\<close>, \<open>notNull\<close>: no \<open>valueSource\<close> and the value \<open>null\<close>;
  \<^item> \<open>in\<close>: a value other than the empty string that is the comma-joined list of its own
    elements, which are all strings, all numbers or all booleans, none of them rendered as a
    number, with no \<open>valueSource\<close>, or are at least one with \<open>valueSource: 'field'\<close>;
  \<^item> \<open>between\<close>: a string of at least two characters whose first two elements are valid;
    with no \<open>valueSource\<close> and both of them rendered as numbers (\<open>parseNumbers\<close> on), the
    value is the comma-joined pair of the two numbers in ascending order; with no
    \<open>valueSource\<close> otherwise, they are two strings, two numbers or two booleans and the value
    is their comma-joined pair; with \<open>valueSource: 'field'\<close>, they are two strings and the
    value is their comma-joined pair;
  \<^item> a group has the combinator \<open>and\<close> or \<open>or\<close>, \<open>not\<close> absent or \<open>true\<close>, and at least
    one element; the root can also be the empty \<open>and\<close> group without \<open>not\<close>.

  The helper \<open>toFlatOptionArray\<close> maps no fields to no fields.
\<close>

theorem postgrest_round_trip:
  assumes "toFlatOptionArray d [] = []" and "roundTripQuery u t"
  shows "\<exists>j. formatQuery u d (Standard t) (FormatName postgrest) = Result j
           \<and> parsePostgREST noOptions u j = Inr (Query (GroupItem (withoutIds t)))"
proof -
  let ?c = "postgrestConfig u d"
  let ?j = "processRuleGroupPostgREST d ?c (\<lambda>i. None) t"
  have f: "formatQuery u d (Standard t) (FormatName postgrest) = Result ?j"
    by (simp add: formatQuery_def formatValidated_def standardOf_def postgrestConfig_def config_defs)
  have p: "parsePostgREST noOptions u ?j = Inr (Query (GroupItem (withoutIds t)))"
  proof (cases "roundTripGroup u t")
    case True
    have pl: "processLogic noOptions u ?j True = Inr (Some (GroupItem (withoutIds t)))"
      using group_round_trip(1) [OF assms(1) True] .
    then have "isPojo ?j"
      using processLogic_not_object [of ?j u True] by auto
    then have "(case ?j of JStr s \<Rightarrow> JSON_parse u s | _ \<Rightarrow> Some ?j) = Some ?j"
      by (cases ?j) (simp_all add: isPojo_def)
    then show ?thesis
      using pl by (simp add: parsePostgREST_def)
  next
    case False
    with assms(2) obtain i where t: "t = RuleGroup i ''and'' None []"
      by (cases t) (auto simp: roundTripQuery_def)
    show ?thesis
      by (simp add: t parsePostgREST_def isGroupValid_def groupValidation_def
            processLogic_not_object isPojo_def emptyRuleGroup_def)
  qed
  show ?thesis using f p by blast
qed

lemma example_numbers:
  "exampleNumberToString 5 = ''5''" "exampleNumberToString 10 = ''10''"
  by code_simp+

lemma exampleTree_ok: "roundTripQuery exampleUtils exampleTree"
  by (simp add: roundTripQuery_def exampleTree_def exampleRule_def roundTripRule_def
        comparisonOk_def plainValue_def inListOk_def betweenOk_def numericBounds_def sameType_def
        joined_def exampleUtils_def exampleToArray_def trim_def isDigits_def digitValue_def
        digitsValue_def isPojo_def isString_def isNumber_def isBoolean_def valueLength_def
        example_numbers)

theorem postgrest_round_trip_witness:
  "roundTripQuery exampleUtils exampleTree
   \<and> (\<exists>j. formatQuery exampleUtils exampleImports (Standard exampleTree) (FormatName postgrest)
              = Result j
           \<and> parsePostgREST noOptions exampleUtils j = Inr (Query (GroupItem (withoutIds exampleTree))))"
proof -
  have flat: "toFlatOptionArray exampleImports [] = []"
    by (simp add: exampleImports_def)
  show ?thesis
    using postgrest_round_trip [OF flat exampleTree_ok] exampleTree_ok by simp
qed

lemma format_descending:
  "formatQuery exampleUtils exampleImports
     (Standard (RuleGroup None ''and'' None [RuleItem (exampleRule ''age'' ''between'' (JStr ''10,5''))]))
     (FormatName postgrest)
   = Result (JObj [(''and'', JArr [JObj [(''<='', JArr [JNum 5, JObj [(''var'', JStr ''age'')], JNum 10])]])])"
  by (simp add: format_defs config_defs defaultRuleProcessorPostgREST_def exampleRule_def
        exampleImports_def exampleUtils_def exampleToArray_def trim_def isDigits_def
        digitValue_def digitsValue_def jsLess_def)

lemma parse_ascending:
  "parsePostgREST noOptions exampleUtils
     (JObj [(''and'', JArr [JObj [(''<='', JArr [JNum 5, JObj [(''var'', JStr ''age'')], JNum 10])]])])
   = Inr (Query (GroupItem (RuleGroup None ''and'' None
            [RuleItem (exampleRule ''age'' ''between'' (JStr ''5,10''))])))"
  by (simp add: parsePostgREST_def processLogic_and between_logic_lists processBetweenInclusive_def
        literalList_def isNumber_def isString_def valueLength_def finishRule_def mkRule_def
        exampleRule_def exampleUtils_def example_numbers eval_nat_numeral isRQBPostgRESTVar_def
        isPostgRESTVar_def hasKey_def)

text \<open>C1 does not hold of every query over these operators: the bounds \<open>10,5\<close> of a
  \<open>between\<close> rule come back as \<open>5,10\<close>, and the empty \<open>or\<close> group comes back as the empty
  \<open>and\<close> group.\<close>

theorem round_trip_normalises:
  "formatQuery exampleUtils exampleImports
     (Standard (RuleGroup None ''and'' None [RuleItem (exampleRule ''age'' ''between'' (JStr ''10,5''))]))
     (FormatName postgrest)
   = Result (JObj [(''and'', JArr [JObj [(''<='', JArr [JNum 5, JObj [(''var'', JStr ''age'')], JNum 10])]])])
   \<and> parsePostgREST noOptions exampleUtils
       (JObj [(''and'', JArr [JObj [(''<='', JArr [JNum 5, JObj [(''var'', JStr ''age'')], JNum 10])]])])
     = Inr (Query (GroupItem (RuleGroup None ''and'' None
              [RuleItem (exampleRule ''age'' ''between'' (JStr ''5,10''))])))
   \<and> RuleGroup None ''and'' None [RuleItem (exampleRule ''age'' ''between'' (JStr ''5,10''))]
       \<noteq> withoutIds (RuleGroup None ''and'' None
             [RuleItem (exampleRule ''age'' ''between'' (JStr ''10,5''))])
   \<and> formatQuery exampleUtils exampleImports (Standard (RuleGroup None ''or'' None []))
       (FormatName postgrest) = Result (JBool False)
   \<and> parsePostgREST noOptions exampleUtils (JBool False)
       = Inr (Query (GroupItem (RuleGroup None ''and'' None [])))
   \<and> RuleGroup None ''and'' None [] \<noteq> withoutIds (RuleGroup None ''or'' None [])"
  using format_descending parse_ascending
  by (simp add: exampleRule_def parsePostgREST_def processLogic_not_object isPojo_def
        emptyRuleGroup_def formatQuery_def formatValidated_def config_defs standardOf_def
        isGroupValid_def groupValidation_def)

text \<open>A rule of a negated operator: the rule processor puts the key \<open>not\<close> around the
  object of the operator, an object of that key parses to no rule, and the object with the
  key \<open>!\<close> in its place parses to the rule.\<close>

lemma negated_operator_is_not_parsed_back:
  "formatQuery exampleUtils exampleImports
     (Standard (RuleGroup None ''and'' None [RuleItem (exampleRule ''a'' ''notIn'' (JStr ''x,y''))]))
     (FormatName postgrest)
   = Result (JObj [(''and'', JArr [JObj [(''not'',
       JObj [(''in'', JArr [JObj [(''var'', JStr ''a'')], JArr [JStr ''x'', JStr ''y'']])])]])])"
  "parsePostgREST noOptions exampleUtils
     (JObj [(''and'', JArr [JObj [(''not'',
       JObj [(''in'', JArr [JObj [(''var'', JStr ''a'')], JArr [JStr ''x'', JStr ''y'']])])]])])
   = Inr (Query (GroupItem (RuleGroup None ''and'' None [])))"
  "parsePostgREST noOptions exampleUtils
     (JObj [(''and'', JArr [JObj [(''!'',
       JObj [(''in'', JArr [JObj [(''var'', JStr ''a'')], JArr [JStr ''x'', JStr ''y'']])])]])])
   = Inr (Query (GroupItem (RuleGroup None ''and'' None
            [RuleItem (exampleRule ''a'' ''notIn'' (JStr ''x,y''))])))"
    apply (simp add: format_defs config_defs defaultRuleProcessorPostgREST_def exampleRule_def
        exampleImports_def exampleUtils_def exampleToArray_def trim_def fieldOrNumberRenderer_def
        negateIfNotOp_def lowerCase_def lower_char_def)
   apply (simp add: parsePostgREST_def processLogic_and processLogic_one_key isBasicOperation_def
        orElse_def guard_defs processLists_def finishRule_def)
  apply (simp add: parsePostgREST_def processLogic_and processLogic_not in_logic_lists
        processInArray_def literalList_def isString_def valueLength_def finishRule_def
        negateParsed_def mkRule_def defaultOperatorNegationMap_def exampleRule_def exampleUtils_def
        isRQBPostgRESTVar_def isPostgRESTVar_def hasKey_def)
  done

end
